theory Spec2Isabelle
  imports Main "HOL-Library.Multiset"
begin

section \<open>Python values and exceptions\<close>

text \<open>
  The payloads of the service are JSON documents. A value is \<open>None\<close>, a boolean, an
  integer, a string, a list or a dictionary with string keys; a dictionary is an
  association list with distinct keys, in insertion order. Floating point numbers do
  not occur in the fields the trade core reads and are left out.
\<close>

datatype pyval = PNone | PBool bool | PInt int | PStr string
  | PList "pyval list" | PDict "(string \<times> pyval) list"

text \<open>The exceptions the modelled code raises or lets through.\<close>

datatype exn =
    KeyError string
  | IndexError
  | TypeError
  | ValueError
  | AttributeError
  | NameError
  | StructError
  | UnicodeEncodeError
  | BinasciiError
  | HTTPException
  | ClientException string
  | ConfirmationError string
  | TryAgain
  | RetryError exn

text \<open>
  \<open>==\<close> on JSON values: \<open>True == 1\<close> and \<open>False == 0\<close> hold, lists are compared
  element by element, dictionaries have the same keys with equal values.
\<close>

fun py_eq :: "pyval \<Rightarrow> pyval \<Rightarrow> bool"
  and py_eq_list :: "pyval list \<Rightarrow> pyval list \<Rightarrow> bool"
  and py_dict_sub :: "(string \<times> pyval) list \<Rightarrow> (string \<times> pyval) list \<Rightarrow> bool" where
  "py_eq PNone PNone = True"
| "py_eq (PBool a) (PBool b) = (a = b)"
| "py_eq (PBool a) (PInt n) = ((if a then 1 else 0) = n)"
| "py_eq (PInt n) (PBool b) = (n = (if b then 1 else 0))"
| "py_eq (PInt m) (PInt n) = (m = n)"
| "py_eq (PStr s) (PStr t) = (s = t)"
| "py_eq (PList xs) (PList ys) = py_eq_list xs ys"
| "py_eq (PDict a) (PDict b) = (length a = length b \<and> py_dict_sub a b)"
| "py_eq _ _ = False"
| "py_eq_list [] [] = True"
| "py_eq_list (x # xs) (y # ys) = (py_eq x y \<and> py_eq_list xs ys)"
| "py_eq_list _ _ = False"
| "py_dict_sub [] b = True"
| "py_dict_sub ((k, v) # a) b =
     ((case map_of b k of None \<Rightarrow> False | Some w \<Rightarrow> py_eq v w) \<and> py_dict_sub a b)"

text \<open>\<open>d[k] = v\<close>: a key already present keeps its place, a new key goes last.\<close>

fun dict_set :: "string \<Rightarrow> pyval \<Rightarrow> (string \<times> pyval) list \<Rightarrow> (string \<times> pyval) list" where
  "dict_set k v [] = [(k, v)]"
| "dict_set k v ((k', v') # d) = (if k' = k then (k, v) # d else (k', v') # dict_set k v d)"

text \<open>Truthiness of a JSON value, and of an optional string.\<close>

fun truthy :: "pyval \<Rightarrow> bool" where
  "truthy PNone = False"
| "truthy (PBool b) = b"
| "truthy (PInt n) = (n \<noteq> 0)"
| "truthy (PStr s) = (s \<noteq> [])"
| "truthy (PList xs) = (xs \<noteq> [])"
| "truthy (PDict kvs) = (kvs \<noteq> [])"

text \<open>\<open>d.get(key, default)\<close> on a dictionary.\<close>

definition dict_get :: "(string \<times> pyval) list \<Rightarrow> string \<Rightarrow> pyval \<Rightarrow> pyval" where
  "dict_get d k dflt = (case map_of d k of None \<Rightarrow> dflt | Some v \<Rightarrow> v)"

section \<open>trade.py: Asset and Item\<close>

text \<open>\<open>Game(app_id=...)\<close> keeps the application id it is given (game.py is not modelled further).\<close>

datatype game = Game pyval

text \<open>
  \<open>class Asset\<close> with its \<open>__slots__\<close>; \<open>class Item(Asset)\<close> extends it, so an item is an
  asset record with more fields. The reference \<open>_state\<close> to the connection is not a value
  of the item and is left out. An attribute read with \<open>data.get(...)\<close> holds the JSON
  value, \<open>None\<close> when the key is absent. \<open>icon_url\<close> holds the value of
  \<open>icon_url_large\<close> that the source appends to the fixed address of the image server;
  \<open>item_type\<close> is the attribute \<open>type\<close>.
\<close>

record asset =
  game :: game
  amount :: int
  app_id :: int
  class_id :: int
  asset_id :: int
  instance_id :: int

record item = asset +
  name :: pyval
  item_type :: pyval
  tags :: pyval
  colour :: "int option"
  missing :: bool
  icon_url :: "pyval option"
  market_name :: pyval
  descriptions :: pyval
  is_tradable :: bool
  is_marketable :: bool

text \<open>
  The right operand of \<open>==\<close> is any Python object: an asset (an item is one too), or
  something that is not an instance of \<open>Asset\<close>.
\<close>

datatype other_object = AssetObject asset | NotAnAsset pyval

text \<open>
  \<open>Asset.__eq__\<close>:
  \<open>isinstance(other, Asset) and self.instance_id == other.instance_id and self.class_id == other.class_id\<close>.
\<close>

fun asset_eq :: "'a asset_scheme \<Rightarrow> other_object \<Rightarrow> bool" where
  "asset_eq self (AssetObject other) =
     (instance_id self = instance_id other \<and> class_id self = class_id other)"
| "asset_eq self (NotAnAsset v) = False"

text \<open>\<open>Asset.__ne__\<close>: \<open>not self.__eq__(other)\<close>.\<close>

definition asset_ne :: "'a asset_scheme \<Rightarrow> other_object \<Rightarrow> bool" where
  "asset_ne self other = (\<not> asset_eq self other)"

section \<open>trade.py: TradeOffer\<close>

text \<open>
  Modelled from the spec: the enumeration \<open>ETradeOfferState\<close> (enums.py is not among the
  sources). The members are the ones the spec lists. A member of an enumeration is a
  plain object: it is truthy, and it is not a container, so \<open>x in member\<close> raises
  \<open>TypeError\<close>.
\<close>

datatype ETradeOfferState =
    Invalid | Active | Accepted | Countered | Expired | Canceled | Declined
  | InvalidItems | ConfirmationNeed | CanceledBySecondFactor | InEscrow

text \<open>The operands of \<open>or\<close> and \<open>in\<close> in the state checks: a member, or a tuple of members.\<close>

datatype state_operand = Member ETradeOfferState | Tuple "ETradeOfferState list"

fun operand_truthy :: "state_operand \<Rightarrow> bool" where
  "operand_truthy (Member m) = True"
| "operand_truthy (Tuple ms) = (ms \<noteq> [])"

text \<open>\<open>a or b\<close> is \<open>a\<close> when \<open>a\<close> is truthy and \<open>b\<close> otherwise.\<close>

definition py_or :: "state_operand \<Rightarrow> state_operand \<Rightarrow> state_operand" where
  "py_or a b = (if operand_truthy a then a else b)"

fun py_in :: "ETradeOfferState \<Rightarrow> state_operand \<Rightarrow> exn + bool" where
  "py_in x (Tuple ms) = Inr (x \<in> set ms)"
| "py_in x (Member m) = Inl TypeError"

definition py_not_in :: "ETradeOfferState \<Rightarrow> state_operand \<Rightarrow> exn + bool" where
  "py_not_in x c = (case py_in x c of Inl e \<Rightarrow> Inl e | Inr b \<Rightarrow> Inr (\<not> b))"

text \<open>guard.py: the dataclass \<open>Confirmation\<close> (without its reference to the connection).\<close>

record confirmation =
  conf_id :: string
  data_conf_id :: int
  data_key :: string
  trade_id :: int

text \<open>
  \<open>class TradeOffer\<close>. \<open>partner\<close> is set by \<open>__ainit__\<close> only, so it is absent
  (\<open>None\<close> here, an \<open>AttributeError\<close> on access) until then; it is represented by the
  partner's 64-bit id, the one attribute the methods read. Times are unix timestamps.
\<close>

record trade_offer =
  offer_id :: int
  state :: ETradeOfferState
  escrow :: "int option"
  partner :: "int option"
  message :: "string option"
  expires :: int
  items_to_send :: "item list"
  items_to_receive :: "item list"
  id_other :: int
  is_our_offer_flag :: bool

text \<open>
  The collaborators of a trade offer, reached through \<open>self._state\<close>: the HTTP client,
  the confirmation manager and the client's identity secret. Each field is what the
  call returns or raises. The calls an operation makes are recorded in order.
\<close>

record trade_env =
  accept_user_trade :: "int \<Rightarrow> int \<Rightarrow> exn + (string \<times> pyval) list"
  decline_user_trade :: "int \<Rightarrow> exn + unit"
  cancel_user_trade :: "int \<Rightarrow> exn + unit"
  get_confirmation :: "int \<Rightarrow> exn + confirmation option"
  confirmation_confirm :: "confirmation \<Rightarrow> exn + unit"
  client_identity_secret :: "string option"

datatype call =
    AcceptUserTrade int int
  | DeclineUserTrade int
  | CancelUserTrade int
  | GetConfirmation int
  | ConfirmationConfirm confirmation

text \<open>\<open>is_gift\<close>: \<open>True if self.items_to_receive and not self.items_to_send else False\<close>.\<close>

definition is_gift :: "trade_offer \<Rightarrow> bool" where
  "is_gift self = (if items_to_receive self \<noteq> [] \<and> \<not> items_to_send self \<noteq> [] then True else False)"

definition is_one_sided :: "trade_offer \<Rightarrow> bool" where
  "is_one_sided self =
     (if \<not> items_to_receive self \<noteq> [] \<and> items_to_send self \<noteq> [] then True
      else if items_to_receive self \<noteq> [] \<and> \<not> items_to_send self \<noteq> [] then True
      else False)"

definition is_our_offer :: "trade_offer \<Rightarrow> bool" where
  "is_our_offer self = is_our_offer_flag self"

text \<open>
  \<open>TradeOffer.confirm\<close>. Every method returns what it returns or raises, and the calls it
  made to the collaborators.
\<close>

definition confirm :: "trade_env \<Rightarrow> trade_offer \<Rightarrow> (exn + unit) \<times> call list" where
  "confirm env self =
     (if is_gift self then (Inr (), [])
      else case py_not_in (state self) (Tuple [Active, ConfirmationNeed]) of
        Inl e \<Rightarrow> (Inl e, [])
      | Inr True \<Rightarrow> (Inl (ClientException ''This trade cannot be confirmed''), [])
      | Inr False \<Rightarrow>
          (case get_confirmation env (offer_id self) of
             Inl e \<Rightarrow> (Inl e, [GetConfirmation (offer_id self)])
           | Inr None \<Rightarrow>
               (Inl (ConfirmationError ''No matching confirmation could be found for this trade''),
                [GetConfirmation (offer_id self)])
           | Inr (Some c) \<Rightarrow>
               (confirmation_confirm env c,
                [GetConfirmation (offer_id self), ConfirmationConfirm c])))"

text \<open>\<open>TradeOffer.accept\<close>, the three checks in the order of the source.\<close>

definition accept :: "trade_env \<Rightarrow> trade_offer \<Rightarrow> (exn + unit) \<times> call list" where
  "accept env self =
     (if state self \<noteq> Active then (Inl (ClientException ''This trade is not active''), [])
      else if state self = Accepted then
        (Inl (ClientException ''This trade has already been accepted''), [])
      else if is_our_offer self then
        (Inl (ClientException ''You cannot accept an offer the ClientUser has made''), [])
      else case partner self of
        None \<Rightarrow> (Inl AttributeError, [])
      | Some p \<Rightarrow>
          (case accept_user_trade env p (offer_id self) of
             Inl e \<Rightarrow> (Inl e, [AcceptUserTrade p (offer_id self)])
           | Inr resp \<Rightarrow>
               if truthy (dict_get resp ''needs_mobile_confirmation'' (PBool False))
                  \<and> (case client_identity_secret env of None \<Rightarrow> False | Some s \<Rightarrow> s \<noteq> [])
               then (fst (confirm env self),
                     AcceptUserTrade p (offer_id self) # snd (confirm env self))
               else (Inr (), [AcceptUserTrade p (offer_id self)])))"

text \<open>
  \<open>TradeOffer.decline\<close>. The first check of the source is
  \<open>self.state not in (ETradeOfferState.Active or ETradeOfferState.ConfirmationNeed)\<close>:
  the operand of \<open>in\<close> is the value of an \<open>or\<close>, not a tuple.
\<close>

definition decline :: "trade_env \<Rightarrow> trade_offer \<Rightarrow> (exn + unit) \<times> call list" where
  "decline env self =
     (case py_not_in (state self) (py_or (Member Active) (Member ConfirmationNeed)) of
        Inl e \<Rightarrow> (Inl e, [])
      | Inr True \<Rightarrow> (Inl (ClientException ''This trade is not active''), [])
      | Inr False \<Rightarrow>
          if state self = Declined then
            (Inl (ClientException ''This trade has already been declined''), [])
          else if is_our_offer self then
            (Inl (ClientException ''You cannot decline an offer the ClientUser has made''), [])
          else (decline_user_trade env (offer_id self), [DeclineUserTrade (offer_id self)]))"

text \<open>\<open>TradeOffer.cancel\<close>, with the same first check.\<close>

definition cancel :: "trade_env \<Rightarrow> trade_offer \<Rightarrow> (exn + unit) \<times> call list" where
  "cancel env self =
     (case py_not_in (state self) (py_or (Member Active) (Member ConfirmationNeed)) of
        Inl e \<Rightarrow> (Inl e, [])
      | Inr True \<Rightarrow> (Inl (ClientException ''This trade is not active''), [])
      | Inr False \<Rightarrow>
          if state self = Canceled then
            (Inl (ClientException ''This trade has already been cancelled''), [])
          else if \<not> is_gift self then
            (Inl (ClientException
               ''Offer wasn't created by the ClientUser and therefore cannot be canceled''), [])
          else (cancel_user_trade env (offer_id self), [CancelUserTrade (offer_id self)]))"

text \<open>Sample values used to run the definitions.\<close>

definition sample_env :: trade_env where
  "sample_env =
     \<lparr>accept_user_trade = (\<lambda>p i. Inr []),
      decline_user_trade = (\<lambda>i. Inr ()),
      cancel_user_trade = (\<lambda>i. Inr ()),
      get_confirmation = (\<lambda>i. Inr None),
      confirmation_confirm = (\<lambda>c. Inr ()),
      client_identity_secret = None\<rparr>"

definition sample_item :: "pyval \<Rightarrow> int \<Rightarrow> int \<Rightarrow> int \<Rightarrow> bool \<Rightarrow> item" where
  "sample_item n c i a m =
     \<lparr>game = Game (PStr ''440''), amount = 1, app_id = 440, class_id = c, asset_id = a,
      instance_id = i, name = n, item_type = PNone, tags = PNone, colour = None, missing = m,
      icon_url = None, market_name = PNone, descriptions = PNone, is_tradable = False,
      is_marketable = False\<rparr>"

definition sample_offer :: "ETradeOfferState \<Rightarrow> item list \<Rightarrow> item list \<Rightarrow> trade_offer" where
  "sample_offer st give recv =
     \<lparr>offer_id = 1, state = st, escrow = None, partner = Some 76561198000000000,
      message = None, expires = 0, items_to_send = give, items_to_receive = recv,
      id_other = 39734272, is_our_offer_flag = False\<rparr>"

section \<open>trade.py: Inventory\<close>

text \<open>
  \<open>class Inventory\<close>: \<open>game\<close> (here \<open>inv_game\<close>, \<open>None\<close> when there is no inventory for the
  game), \<open>items\<close>, \<open>owner\<close> (by id) and \<open>_total_inventory_count\<close>, the value the
  server sent.
\<close>

record inventory =
  inv_game :: "game option"
  items :: "item list"
  owner :: int
  total_inventory_count :: pyval

text \<open>An item seen as an instance of \<open>Asset\<close>.\<close>

definition as_asset :: "item \<Rightarrow> asset" where
  "as_asset i =
     \<lparr>game = game i, amount = amount i, app_id = app_id i, class_id = class_id i,
      asset_id = asset_id i, instance_id = instance_id i\<rparr>"

text \<open>
  \<open>list.remove(x)\<close>: removes the first element \<open>e\<close> with \<open>e == x\<close>, which for items is
  \<open>Asset.__eq__\<close>; \<open>ValueError\<close> if there is none. (An element identical to \<open>x\<close> is
  equal to it, so the identity shortcut of \<open>remove\<close> removes nothing else.)
\<close>

fun list_remove :: "item \<Rightarrow> item list \<Rightarrow> exn + item list" where
  "list_remove x [] = Inl ValueError"
| "list_remove x (e # es) =
     (if asset_eq e (AssetObject (as_asset x)) then Inr es
      else case list_remove x es of Inl err \<Rightarrow> Inl err | Inr es' \<Rightarrow> Inr (e # es'))"

text \<open>\<open>for item in items: self.items.remove(item)\<close>.\<close>

fun remove_each :: "item list \<Rightarrow> item list \<Rightarrow> (exn + unit) \<times> item list" where
  "remove_each [] ys = (Inr (), ys)"
| "remove_each (x # xs) ys =
     (case list_remove x ys of
        Inl err \<Rightarrow> (Inl err, ys)
      | Inr ys' \<Rightarrow> remove_each xs ys')"

text \<open>
  The slice \<open>xs[:k]\<close>: the first \<open>k\<close> elements, or all but the last \<open>-k\<close> when \<open>k\<close> is
  negative.
\<close>

definition slice_to :: "int \<Rightarrow> 'a list \<Rightarrow> 'a list" where
  "slice_to k xs = (if 0 \<le> k then take (nat k) xs else take (length xs - nat (- k)) xs)"

text \<open>\<open>lambda i: i.name == item_name\<close>.\<close>

definition matching :: "string \<Rightarrow> item \<Rightarrow> bool" where
  "matching item_name i = py_eq (name i) (PStr item_name)"

text \<open>
  \<open>Inventory.filter_items\<close>: the result, and the inventory as the call leaves it.
\<close>

definition filter_items ::
  "inventory \<Rightarrow> string \<Rightarrow> int option \<Rightarrow> (exn + item list) \<times> inventory" where
  "filter_items self item_name limit =
     (let found = filter (matching item_name) (items self);
          found = slice_to (case limit of None \<Rightarrow> int (length found) - 1 | Some l \<Rightarrow> l) found
      in case remove_each found (items self) of
           (Inl err, ys) \<Rightarrow> (Inl err, self\<lparr>items := ys\<rparr>)
         | (Inr u, ys) \<Rightarrow> (Inr found, self\<lparr>items := ys\<rparr>))"

text \<open>
  For the statements below: a list without its first \<open>j\<close> elements satisfying \<open>P\<close>, and
  the pair \<open>(class_id, instance_id)\<close> that decides asset equality.
\<close>

fun without_first :: "nat \<Rightarrow> ('a \<Rightarrow> bool) \<Rightarrow> 'a list \<Rightarrow> 'a list" where
  "without_first 0 P xs = xs"
| "without_first (Suc j) P [] = []"
| "without_first (Suc j) P (x # xs) =
     (if P x then without_first j P xs else x # without_first (Suc j) P xs)"

definition kind :: "item \<Rightarrow> int \<times> int" where
  "kind i = (class_id i, instance_id i)"

text \<open>
  \<open>int(s)\<close> and \<open>int(s, 16)\<close> on a string: blanks around the text are dropped, a sign
  may come first, base 16 accepts a \<open>0x\<close> prefix, and digits may be separated by single
  underscores; anything else is a \<open>ValueError\<close>. Characters are the 256 of \<open>char\<close>.
\<close>

definition is_space :: "char \<Rightarrow> bool" where
  "is_space c = ((of_char c :: nat) \<in> {9, 10, 11, 12, 13, 28, 29, 30, 31, 32, 133, 160})"

definition strip :: "string \<Rightarrow> string" where
  "strip s = rev (dropWhile is_space (rev (dropWhile is_space s)))"

definition digit_value :: "char \<Rightarrow> nat option" where
  "digit_value c =
     (let n = (of_char c :: nat) in
      if 48 \<le> n \<and> n \<le> 57 then Some (n - 48)
      else if 97 \<le> n \<and> n \<le> 122 then Some (n - 87)
      else if 65 \<le> n \<and> n \<le> 90 then Some (n - 55)
      else None)"

fun parse_digits :: "nat \<Rightarrow> string \<Rightarrow> bool \<Rightarrow> int \<Rightarrow> int option" where
  "parse_digits base [] after_digit acc = (if after_digit then Some acc else None)"
| "parse_digits base (c # cs) after_digit acc =
     (if c = CHR ''_'' then
        (if after_digit \<and> cs \<noteq> [] then parse_digits base cs False acc else None)
      else case digit_value c of
        None \<Rightarrow> None
      | Some d \<Rightarrow> if d < base then parse_digits base cs True (acc * int base + int d) else None)"

definition parse_unsigned :: "nat \<Rightarrow> string \<Rightarrow> int option" where
  "parse_unsigned base s =
     (if base = 16 \<and> (take 2 s = ''0x'' \<or> take 2 s = ''0X'') then
        (if take 1 (drop 2 s) = ''_'' then parse_digits base (drop 3 s) False 0
         else parse_digits base (drop 2 s) False 0)
      else parse_digits base s False 0)"

definition int_of_string :: "nat \<Rightarrow> string \<Rightarrow> exn + int" where
  "int_of_string base s =
     (let t = strip s;
          negative = (take 1 t = ''-'');
          body = (if take 1 t = ''-'' \<or> take 1 t = ''+'' then drop 1 t else t)
      in case parse_unsigned base body of
           None \<Rightarrow> Inl ValueError
         | Some n \<Rightarrow> Inr (if negative then - n else n))"

text \<open>\<open>int(v)\<close> and \<open>int(v, 16)\<close> on a JSON value.\<close>

fun py_int :: "pyval \<Rightarrow> exn + int" where
  "py_int (PInt n) = Inr n"
| "py_int (PBool b) = Inr (if b then 1 else 0)"
| "py_int (PStr s) = int_of_string 10 s"
| "py_int v = Inl TypeError"

fun py_int_16 :: "pyval \<Rightarrow> exn + int" where
  "py_int_16 (PStr s) = int_of_string 16 s"
| "py_int_16 v = Inl TypeError"

text \<open>
  \<open>v[key]\<close> with a string key, \<open>v[0]\<close>, and the elements \<open>for x in v\<close> visits. Only a
  dictionary can be subscripted by a string; on a dictionary \<open>v[0]\<close> is a \<open>KeyError\<close>,
  since the keys are strings.
\<close>

fun getitem :: "pyval \<Rightarrow> string \<Rightarrow> exn + pyval" where
  "getitem (PDict d) k = (case map_of d k of None \<Rightarrow> Inl (KeyError k) | Some v \<Rightarrow> Inr v)"
| "getitem v k = Inl TypeError"

fun getitem_0 :: "pyval \<Rightarrow> exn + pyval" where
  "getitem_0 (PList xs) = (case xs of [] \<Rightarrow> Inl IndexError | x # rest \<Rightarrow> Inr x)"
| "getitem_0 (PStr s) = (case s of [] \<Rightarrow> Inl IndexError | c # rest \<Rightarrow> Inr (PStr [c]))"
| "getitem_0 (PDict d) = Inl (KeyError ''0'')"
| "getitem_0 v = Inl TypeError"

fun py_iter :: "pyval \<Rightarrow> exn + pyval list" where
  "py_iter (PList xs) = Inr xs"
| "py_iter (PDict d) = Inr (map (\<lambda>kv. PStr (fst kv)) d)"
| "py_iter (PStr s) = Inr (map (\<lambda>c. PStr [c]) s)"
| "py_iter v = Inl TypeError"

text \<open>Sequencing: the first exception raised ends the computation.\<close>

definition bind :: "exn + 'a \<Rightarrow> ('a \<Rightarrow> exn + 'b) \<Rightarrow> exn + 'b" where
  "bind r f = (case r of Inl e \<Rightarrow> Inl e | Inr v \<Rightarrow> f v)"

text \<open>\<open>Asset.__init__\<close>, the attributes in the order they are set.\<close>

definition new_asset :: "pyval \<Rightarrow> exn + asset" where
  "new_asset data =
     bind (bind (getitem data ''assetid'') py_int) (\<lambda>asset_id'.
     bind (getitem data ''appid'') (\<lambda>appid.
     bind (bind (getitem data ''appid'') py_int) (\<lambda>app_id'.
     bind (bind (getitem data ''amount'') py_int) (\<lambda>amount'.
     bind (bind (getitem data ''instanceid'') py_int) (\<lambda>instance_id'.
     bind (bind (getitem data ''classid'') py_int) (\<lambda>class_id'.
     Inr \<lparr>game = Game appid, amount = amount', app_id = app_id', class_id = class_id',
          asset_id = asset_id', instance_id = instance_id'\<rparr>))))))"

text \<open>
  \<open>Item.__init__\<close> with \<open>_from_data\<close>. Once \<open>Asset.__init__\<close> has read its keys the
  data is a dictionary.
\<close>

definition new_item :: "pyval \<Rightarrow> bool \<Rightarrow> exn + item" where
  "new_item data missing' =
     bind (new_asset data) (\<lambda>a.
     case data of
       PDict d \<Rightarrow>
         bind (case map_of d ''name_color'' of
                 None \<Rightarrow> Inr None
               | Some v \<Rightarrow> bind (py_int_16 v) (\<lambda>n. Inr (Some n))) (\<lambda>colour'.
         Inr \<lparr>game = game a, amount = amount a, app_id = app_id a, class_id = class_id a,
              asset_id = asset_id a, instance_id = instance_id a,
              name = dict_get d ''name'' PNone,
              item_type = dict_get d ''type'' PNone,
              tags = dict_get d ''tags'' PNone,
              colour = colour',
              missing = missing',
              icon_url = map_of d ''icon_url_large'',
              market_name = dict_get d ''market_name'' PNone,
              descriptions = dict_get d ''descriptions'' PNone,
              is_tradable = truthy (dict_get d ''tradable'' (PBool False)),
              is_marketable = truthy (dict_get d ''marketable'' (PBool False))\<rparr>)
     | other \<Rightarrow> Inl AttributeError)"

text \<open>\<open>item.update(asset)\<close>.\<close>

fun dict_update :: "pyval \<Rightarrow> pyval \<Rightarrow> exn + pyval" where
  "dict_update (PDict d) (PDict a) = Inr (PDict (fold (\<lambda>kv. dict_set (fst kv) (snd kv)) a d))"
| "dict_update v w = Inl TypeError"

text \<open>
  The inner loop of \<open>Inventory._update\<close>, \<open>for item in data['descriptions']\<close>, for one
  asset. A description that matches is updated in place, so the loop returns the
  descriptions as it leaves them together with the items it appended.
\<close>

fun match_descriptions :: "pyval \<Rightarrow> pyval list \<Rightarrow> exn + pyval list \<times> item list" where
  "match_descriptions asset [] = Inr ([], [])"
| "match_descriptions asset (item # rest) =
     bind (getitem item ''instanceid'') (\<lambda>item_instance.
     bind (getitem asset ''instanceid'') (\<lambda>asset_instance.
     bind (if py_eq item_instance asset_instance then
             bind (getitem item ''classid'') (\<lambda>item_class.
             bind (getitem asset ''classid'') (\<lambda>asset_class.
             Inr (py_eq item_class asset_class)))
           else Inr False) (\<lambda>matched.
     if matched then
       bind (dict_update item asset) (\<lambda>item'.
       bind (new_item item' False) (\<lambda>it.
       bind (match_descriptions asset rest) (\<lambda>(rest', its).
       Inr (item' # rest', it # its))))
     else
       bind (match_descriptions asset rest) (\<lambda>(rest', its).
       Inr (item # rest', its)))))"

text \<open>
  The outer loop, \<open>for asset in data['assets']\<close>. After the inner loop the source
  appends \<open>Item(state=self._state, data=asset, missing=True)\<close> for every asset: the
  statement is at the level of the inner \<open>for\<close>, under no condition.
\<close>

fun update_assets ::
  "pyval list \<Rightarrow> (string \<times> pyval) list \<Rightarrow> item list
     \<Rightarrow> exn + (string \<times> pyval) list \<times> item list" where
  "update_assets [] data acc = Inr (data, acc)"
| "update_assets (asset # rest) data acc =
     bind (getitem (PDict data) ''descriptions'') (\<lambda>descs.
     bind (py_iter descs) (\<lambda>elems.
     bind (match_descriptions asset elems) (\<lambda>(elems', its).
     bind (new_item asset True) (\<lambda>m.
     update_assets rest
       (case descs of PList ds \<Rightarrow> dict_set ''descriptions'' (PList elems') data | other \<Rightarrow> data)
       (acc @ its @ [m])))))"

text \<open>
  \<open>Inventory._update\<close>. Only a \<open>KeyError\<close> raised by
  \<open>int(data['assets'][0]['appid'])\<close> is caught; the \<open>else\<close> branch appends to the items
  the inventory already has. The result is the inventory on success (what a failed update
  leaves behind is not modelled).
\<close>

definition update_inventory ::
  "item list \<Rightarrow> int \<Rightarrow> (string \<times> pyval) list \<Rightarrow> exn + inventory" where
  "update_inventory old_items owner' data =
     (case bind (getitem (PDict data) ''assets'') (\<lambda>assets.
           bind (getitem_0 assets) (\<lambda>first.
           bind (getitem first ''appid'') py_int)) of
        Inl (KeyError k) \<Rightarrow>
          Inr \<lparr>inv_game = None, items = [], owner = owner', total_inventory_count = PInt 0\<rparr>
      | Inl e \<Rightarrow> Inl e
      | Inr app \<Rightarrow>
          bind (getitem (PDict data) ''assets'') (\<lambda>assets.
          bind (py_iter assets) (\<lambda>elems.
          bind (update_assets elems data old_items) (\<lambda>(data', its).
          bind (getitem (PDict data') ''total_inventory_count'') (\<lambda>total.
          Inr \<lparr>inv_game = Some (Game (PInt app)), items = its, owner = owner',
               total_inventory_count = total\<rparr>)))))"

text \<open>\<open>Inventory.__init__\<close> sets \<open>items = []\<close> and updates; \<open>__len__\<close> is the count sent.\<close>

definition new_inventory :: "int \<Rightarrow> (string \<times> pyval) list \<Rightarrow> exn + inventory" where
  "new_inventory owner' data = update_inventory [] owner' data"

definition inventory_len :: "inventory \<Rightarrow> pyval" where
  "inventory_len self = total_inventory_count self"

text \<open>
  Sample payloads: assets of one kind and the one description they share, with the
  items and the inventory \<open>Inventory.__init__\<close> builds from them.
\<close>

definition key_asset :: "string \<Rightarrow> pyval" where
  "key_asset a =
     PDict [(''appid'', PInt 440), (''contextid'', PStr ''2''), (''assetid'', PStr a),
            (''classid'', PStr ''10''), (''instanceid'', PStr ''0''), (''amount'', PStr ''1'')]"

definition key_description :: pyval where
  "key_description =
     PDict [(''appid'', PInt 440), (''classid'', PStr ''10''), (''instanceid'', PStr ''0''),
            (''name'', PStr ''Key''), (''name_color'', PStr ''7D6D00''), (''tradable'', PInt 1)]"

definition one_key_payload :: "(string \<times> pyval) list" where
  "one_key_payload =
     [(''assets'', PList [key_asset ''1'']), (''descriptions'', PList [key_description]),
      (''total_inventory_count'', PInt 1)]"

definition two_key_payload :: "(string \<times> pyval) list" where
  "two_key_payload =
     [(''assets'', PList [key_asset ''1'', key_asset ''2'']),
      (''descriptions'', PList [key_description]), (''total_inventory_count'', PInt 2)]"

definition key_item :: "int \<Rightarrow> item" where
  "key_item a =
     \<lparr>game = Game (PInt 440), amount = 1, app_id = 440, class_id = 10, asset_id = a,
      instance_id = 0, name = PStr ''Key'', item_type = PNone, tags = PNone,
      colour = Some 8219904, missing = False, icon_url = None, market_name = PNone,
      descriptions = PNone, is_tradable = True, is_marketable = False\<rparr>"

definition nameless_item :: "int \<Rightarrow> item" where
  "nameless_item a =
     \<lparr>game = Game (PInt 440), amount = 1, app_id = 440, class_id = 10, asset_id = a,
      instance_id = 0, name = PNone, item_type = PNone, tags = PNone,
      colour = None, missing = True, icon_url = None, market_name = PNone,
      descriptions = PNone, is_tradable = False, is_marketable = False\<rparr>"

definition two_key_inventory :: inventory where
  "two_key_inventory =
     \<lparr>inv_game = Some (Game (PInt 440)),
      items = [key_item 1, nameless_item 1, key_item 2, nameless_item 2],
      owner = 7, total_inventory_count = PInt 2\<rparr>"

section \<open>user.py: the confirmation loop of User.send\<close>

text \<open>
  Modelled from the spec: the exception classes (errors.py is not among the sources).
  \<open>ConfirmationError\<close> is a kind of \<open>ClientException\<close>; the built-in errors, the HTTP
  error and the errors of the retry library are not. The loop tests
  \<open>except ConfirmationError\<close> before \<open>except ClientException\<close>.
\<close>

definition is_ConfirmationError :: "exn \<Rightarrow> bool" where
  "is_ConfirmationError e = (case e of ConfirmationError m \<Rightarrow> True | _ \<Rightarrow> False)"

definition is_ClientException :: "exn \<Rightarrow> bool" where
  "is_ClientException e =
     (case e of ClientException m \<Rightarrow> True | ConfirmationError m \<Rightarrow> True | _ \<Rightarrow> False)"

text \<open>
  What a run of the loop leaves behind: how many times \<open>trade.confirm()\<close> was called and
  the delays passed to \<open>asyncio.sleep\<close>, in order.
\<close>

record send_run =
  confirm_calls :: nat
  slept :: "int list"

text \<open>\<open>range(n)\<close>.\<close>

definition range :: "nat \<Rightarrow> nat list" where
  "range n = [0..<n]"

text \<open>
  \<open>for tries in range(5)\<close> with its \<open>try\<close>: \<open>trade_confirm n\<close> is what the call number \<open>n\<close>
  (from 0) of \<open>trade.confirm()\<close> returns or raises. A \<open>ConfirmationError\<close> breaks out
  of the loop, a \<open>ClientException\<close> sleeps \<open>tries * 2\<close> and goes on, any other exception
  leaves the function, and a call that returns goes on to the next iteration (the
  source has no \<open>break\<close> there).
\<close>

fun confirm_loop ::
  "(nat \<Rightarrow> exn + unit) \<Rightarrow> nat list \<Rightarrow> send_run \<Rightarrow> (exn + unit) \<times> send_run" where
  "confirm_loop trade_confirm [] r = (Inr (), r)"
| "confirm_loop trade_confirm (tries # rest) r =
     (case trade_confirm (confirm_calls r) of
        Inr u \<Rightarrow> confirm_loop trade_confirm rest (r\<lparr>confirm_calls := confirm_calls r + 1\<rparr>)
      | Inl e \<Rightarrow>
          if is_ConfirmationError e then (Inr (), r\<lparr>confirm_calls := confirm_calls r + 1\<rparr>)
          else if is_ClientException e then
            confirm_loop trade_confirm rest
              (r\<lparr>confirm_calls := confirm_calls r + 1, slept := slept r @ [int tries * 2]\<rparr>)
          else (Inl e, r\<lparr>confirm_calls := confirm_calls r + 1\<rparr>))"

text \<open>
  \<open>if needs_confirmation:\<close> the loop, then \<open>trade.state = TradeOfferState.Active\<close>.
\<close>

definition send_confirmation ::
  "(nat \<Rightarrow> exn + unit) \<Rightarrow> bool \<Rightarrow> trade_offer \<Rightarrow> (exn + trade_offer) \<times> send_run" where
  "send_confirmation trade_confirm needs_confirmation trade =
     (if needs_confirmation then
        (case confirm_loop trade_confirm (range 5) \<lparr>confirm_calls = 0, slept = []\<rparr> of
           (Inl e, r) \<Rightarrow> (Inl e, r)
         | (Inr u, r) \<Rightarrow> (Inr (trade\<lparr>state := Active\<rparr>), r))
      else (Inr trade, \<lparr>confirm_calls = 0, slept = []\<rparr>))"

text \<open>Two simulated behaviours of \<open>trade.confirm()\<close>.\<close>

definition fails_four_times :: "nat \<Rightarrow> exn + unit" where
  "fails_four_times n = (if n < 4 then Inl (ClientException ''not yet'') else Inr ())"

definition no_confirmation :: "nat \<Rightarrow> exn + unit" where
  "no_confirmation n = Inl (ConfirmationError ''No matching confirmation could be found for this trade'')"

section \<open>guard.py: Confirmation\<close>

text \<open>
  What \<open>self._state.http.get\<close> returns. The source calls both \<open>resp.json()\<close> and, in
  \<open>_assert_valid\<close>, \<open>resp.get("success", False)\<close> on it, so a response is given by the
  answers to both.
\<close>

record response =
  resp_get :: "string \<Rightarrow> pyval option"
  resp_json :: pyval

text \<open>\<open>resp.get(key, default)\<close>.\<close>

definition response_get :: "response \<Rightarrow> string \<Rightarrow> pyval \<Rightarrow> pyval" where
  "response_get resp k dflt = (case resp_get resp k of None \<Rightarrow> dflt | Some v \<Rightarrow> v)"

text \<open>
  The connection the confirmation works through: \<open>_state._generate_confirmation_code\<close>,
  \<open>_state._device_id\<close>, \<open>_state.user.id64\<close>, and \<open>_state.http.get\<close>, whose first
  argument here is the number of GET requests made before (so that successive requests can
  be answered differently).
\<close>

record guard_env =
  generate_confirmation_code_of_state :: "string \<Rightarrow> exn + string \<times> int"
  device_id :: string
  user_id64 :: int
  http_get :: "nat \<Rightarrow> string \<Rightarrow> (string \<times> pyval) list \<Rightarrow> exn + response"

text \<open>
  What a run changes or leaves behind: the list \<open>_state._confirmations_to_ignore\<close>, the
  number of attempts the retry wrapper started, the number of GET requests, and the delays
  the wrapper waited, in order.
\<close>

record guard_state =
  confirmations_to_ignore :: "int list"
  attempts :: nat
  gets :: nat
  waits :: "int list"

text \<open>\<open>Confirmation._confirm_params\<close>.\<close>

definition confirm_params :: "guard_env \<Rightarrow> string \<Rightarrow> exn + (string \<times> pyval) list" where
  "confirm_params env tag =
     (case generate_confirmation_code_of_state env tag of
        Inl e \<Rightarrow> Inl e
      | Inr (code, timestamp) \<Rightarrow>
          Inr [(''p'', PStr (device_id env)), (''a'', PInt (user_id64 env)),
               (''k'', PStr code), (''t'', PInt timestamp), (''m'', PStr ''android''),
               (''tag'', PStr tag)])"

text \<open>
  \<open>Confirmation._assert_valid\<close>: a falsy \<open>success\<close> appends the trade id to the ignore
  list and raises \<open>ConfirmationError\<close>.
\<close>

definition assert_valid ::
  "confirmation \<Rightarrow> response \<Rightarrow> guard_state \<Rightarrow> (exn + unit) \<times> guard_state" where
  "assert_valid self resp s =
     (if \<not> truthy (response_get resp ''success'' (PBool False)) then
        (Inl (ConfirmationError ''''),
         s\<lparr>confirmations_to_ignore := confirmations_to_ignore s @ [trade_id self]\<rparr>)
      else (Inr (), s))"

text \<open>The body of \<open>Confirmation._perform_op\<close>, one attempt.\<close>

definition perform_op_body ::
  "guard_env \<Rightarrow> confirmation \<Rightarrow> string \<Rightarrow> guard_state \<Rightarrow> (exn + unit) \<times> guard_state" where
  "perform_op_body env self op s =
     (case confirm_params env op of
        Inl e \<Rightarrow> (Inl e, s)
      | Inr params \<Rightarrow>
          (case http_get env (gets s) ''mobileconf/ajaxop''
                  (dict_set ''ck'' (PStr (data_key self))
                    (dict_set ''cid'' (PInt (data_conf_id self))
                      (dict_set ''op'' (PStr op) params))) of
             Inl e \<Rightarrow> (Inl e, s\<lparr>gets := gets s + 1\<rparr>)
           | Inr resp \<Rightarrow>
               (case assert_valid self resp (s\<lparr>gets := gets s + 1\<rparr>) of
                  (Inl e, s') \<Rightarrow> (Inl e, s')
                | (Inr u, s') \<Rightarrow>
                    if op = ''allow'' then
                      (if py_eq (resp_json resp) (PDict [(''success'', PBool False)])
                       then (Inl TryAgain, s') else (Inr (), s'))
                    else (Inr (), s'))))"

text \<open>
  The decorator \<open>@retry(stop=stop_after_attempt(4), wait=wait_fixed(4), after=after_log(...))\<close>
  of the tenacity library. No \<open>retry=\<close> argument is given, so the library's default
  applies: an attempt that raises any exception is retried (\<open>TryAgain\<close> always is). After
  a failed attempt the wrapper stops if the attempt number has reached 4, raising
  \<open>RetryError\<close> around the last exception (\<open>reraise\<close> is not set); otherwise it waits 4
  and starts the next attempt. The \<open>after\<close> hook only logs.
\<close>

function retry ::
  "(guard_state \<Rightarrow> (exn + unit) \<times> guard_state) \<Rightarrow> nat \<Rightarrow> guard_state
     \<Rightarrow> (exn + unit) \<times> guard_state" where
  "retry body attempt_number s =
     (case body (s\<lparr>attempts := attempts s + 1\<rparr>) of
        (Inr u, s') \<Rightarrow> (Inr u, s')
      | (Inl e, s') \<Rightarrow>
          if attempt_number \<ge> 4 then (Inl (RetryError e), s')
          else retry body (attempt_number + 1) (s'\<lparr>waits := waits s' @ [4]\<rparr>))"
  by pat_completeness auto
termination
  by (relation "measure (\<lambda>(body, attempt_number, s). 4 - attempt_number)") auto

declare retry.simps [simp del]

text \<open>\<open>Confirmation._perform_op\<close> as callers see it: the decorated function.\<close>

definition perform_op ::
  "guard_env \<Rightarrow> confirmation \<Rightarrow> string \<Rightarrow> guard_state \<Rightarrow> (exn + unit) \<times> guard_state" where
  "perform_op env self op s = retry (perform_op_body env self op) 1 s"

text \<open>\<open>Confirmation.confirm\<close> and \<open>Confirmation.cancel\<close>.\<close>

definition Confirmation_confirm ::
  "guard_env \<Rightarrow> confirmation \<Rightarrow> guard_state \<Rightarrow> (exn + unit) \<times> guard_state" where
  "Confirmation_confirm env self s = perform_op env self ''allow'' s"

definition Confirmation_cancel ::
  "guard_env \<Rightarrow> confirmation \<Rightarrow> guard_state \<Rightarrow> (exn + unit) \<times> guard_state" where
  "Confirmation_cancel env self s = perform_op env self ''cancel'' s"

text \<open>A response that answers \<open>get\<close> from its JSON body, and sample values.\<close>

definition dict_response :: "(string \<times> pyval) list \<Rightarrow> response" where
  "dict_response d = \<lparr>resp_get = map_of d, resp_json = PDict d\<rparr>"

definition sample_guard_env :: "(nat \<Rightarrow> exn + response) \<Rightarrow> guard_env" where
  "sample_guard_env replies =
     \<lparr>generate_confirmation_code_of_state = (\<lambda>tag. Inr (''c29tZSBjb2Rl'', 1600000000)),
      device_id = ''android:0'', user_id64 = 76561198000000000,
      http_get = (\<lambda>n url params. replies n)\<rparr>"

definition sample_confirmation :: confirmation where
  "sample_confirmation = \<lparr>conf_id = ''9001'', data_conf_id = 9001, data_key = ''77'', trade_id = 5\<rparr>"

definition fresh :: guard_state where
  "fresh = \<lparr>confirmations_to_ignore = [], attempts = 0, gets = 0, waits = []\<rparr>"

definition refused :: response where
  "refused = dict_response [(''success'', PBool False)]"

definition granted :: response where
  "granted = dict_response [(''success'', PBool True)]"

section \<open>guard.py: code generation\<close>

unbundle bit_operations_syntax

text \<open>
  The module binds the name \<open>time\<close> twice: \<open>from time import time\<close> (line 5) binds it to
  the function, \<open>import time\<close> (line 11) rebinds it to the module. The imports are run in
  order; the other import statements do not touch the name.
\<close>

datatype time_binding = TimeFunction | TimeModule

datatype import_statement = FromTimeImportTime | ImportTime | OtherImport

fun bind_time :: "time_binding option \<Rightarrow> import_statement \<Rightarrow> time_binding option" where
  "bind_time b FromTimeImportTime = Some TimeFunction"
| "bind_time b ImportTime = Some TimeModule"
| "bind_time b OtherImport = b"

definition guard_imports :: "import_statement list" where
  "guard_imports =
     [OtherImport, FromTimeImportTime, OtherImport, OtherImport, OtherImport, OtherImport,
      OtherImport, ImportTime, OtherImport, OtherImport, OtherImport, OtherImport,
      OtherImport, OtherImport]"

definition time_name :: "time_binding option" where
  "time_name = foldl bind_time None guard_imports"

text \<open>
  The standard library as the two functions use it: the clock (\<open>int(time.time())\<close>),
  \<open>base64.b64decode\<close>, which raises on a malformed secret, \<open>base64.b64encode\<close>
  followed by \<open>.decode()\<close>, and \<open>hmac.new(key, msg, digestmod=sha1).digest()\<close>. Bytes are
  the integers Python gives when a bytes object is indexed.
\<close>

record library =
  now :: int
  b64decode :: "string \<Rightarrow> exn + int list"
  b64encode :: "int list \<Rightarrow> string"
  hmac_sha1 :: "int list \<Rightarrow> int list \<Rightarrow> int list"

text \<open>\<open>int(time.time())\<close>, an attribute of the module, and \<open>int(time())\<close>, a call of the name.\<close>

definition time_dot_time :: "library \<Rightarrow> exn + int" where
  "time_dot_time lib =
     (case time_name of
        None \<Rightarrow> Inl NameError
      | Some TimeModule \<Rightarrow> Inr (now lib)
      | Some TimeFunction \<Rightarrow> Inl AttributeError)"

definition call_time :: "library \<Rightarrow> exn + int" where
  "call_time lib =
     (case time_name of
        None \<Rightarrow> Inl NameError
      | Some TimeFunction \<Rightarrow> Inr (now lib)
      | Some TimeModule \<Rightarrow> Inl TypeError)"

text \<open>
  \<open>struct.pack(">Q", n)\<close>: 8 bytes, most significant first; \<open>struct.error\<close> outside
  \<open>0 \<le> n < 2 ^ 64\<close>. \<open>struct.unpack(">I", bs)[0]\<close>: 4 bytes exactly.
\<close>

definition pack_Q :: "int \<Rightarrow> exn + int list" where
  "pack_Q n =
     (if 0 \<le> n \<and> n < 2 ^ 64 then Inr (map (\<lambda>i. (n div 256 ^ (7 - i)) mod 256) [0..<8])
      else Inl StructError)"

fun unpack_I :: "int list \<Rightarrow> exn + int" where
  "unpack_I [a, b, c, d] = Inr (((a * 256 + b) * 256 + c) * 256 + d)"
| "unpack_I bs = Inl StructError"

text \<open>The alphabet, and \<open>for _ in range(5): full_code, i = divmod(...); code.append(chars[i])\<close>.\<close>

definition chars :: string where
  "chars = ''23456789BCDFGHJKMNPQRTVWXY''"

fun code_loop :: "nat \<Rightarrow> int \<Rightarrow> string \<Rightarrow> string" where
  "code_loop 0 full_code code = code"
| "code_loop (Suc n) full_code code =
     code_loop n (full_code div int (length chars))
       (code @ [chars ! nat (full_code mod int (length chars))])"

text \<open>
  \<open>generate_one_time_code\<close>. \<open>timestamp or int(time.time())\<close> takes the clock when the
  timestamp is \<open>None\<close> or 0.
\<close>

definition generate_one_time_code :: "library \<Rightarrow> string \<Rightarrow> int option \<Rightarrow> exn + string" where
  "generate_one_time_code lib shared_secret timestamp =
     (case (case timestamp of
              Some t \<Rightarrow> if t \<noteq> 0 then Inr t else time_dot_time lib
            | None \<Rightarrow> time_dot_time lib) of
        Inl e \<Rightarrow> Inl e
      | Inr t \<Rightarrow>
          (case pack_Q (t div 30) of
             Inl e \<Rightarrow> Inl e
           | Inr time_buffer \<Rightarrow>
               (case b64decode lib shared_secret of
                  Inl e \<Rightarrow> Inl e
                | Inr key \<Rightarrow>
                    let time_hmac = hmac_sha1 lib key time_buffer in
                    if length time_hmac \<le> 19 then Inl IndexError
                    else
                      let begin = nat ((time_hmac ! 19) AND 0xF) in
                      (case unpack_I (take 4 (drop begin time_hmac)) of
                         Inl e \<Rightarrow> Inl e
                       | Inr v \<Rightarrow> Inr (code_loop 5 (v AND 0x7FFFFFFF) [])))))"

text \<open>\<open>tag.encode("ascii")\<close>.\<close>

definition encode_ascii :: "string \<Rightarrow> exn + int list" where
  "encode_ascii s =
     (if \<forall>c \<in> set s. (of_char c :: nat) < 128 then Inr (map of_char s)
      else Inl UnicodeEncodeError)"

text \<open>
  \<open>generate_confirmation_code\<close>. Its default is \<open>int(time())\<close>: a call of the name
  \<open>time\<close>.
\<close>

definition generate_confirmation_code ::
  "library \<Rightarrow> string \<Rightarrow> string \<Rightarrow> int option \<Rightarrow> exn + string" where
  "generate_confirmation_code lib identity_secret tag timestamp =
     (case (case timestamp of
              Some t \<Rightarrow> if t \<noteq> 0 then Inr t else call_time lib
            | None \<Rightarrow> call_time lib) of
        Inl e \<Rightarrow> Inl e
      | Inr t \<Rightarrow>
          (case pack_Q t of
             Inl e \<Rightarrow> Inl e
           | Inr packed \<Rightarrow>
               (case encode_ascii tag of
                  Inl e \<Rightarrow> Inl e
                | Inr tag_bytes \<Rightarrow>
                    (case b64decode lib identity_secret of
                       Inl e \<Rightarrow> Inl e
                     | Inr key \<Rightarrow>
                         Inr (b64encode lib (hmac_sha1 lib key (packed @ tag_bytes)))))))"

text \<open>
  A stand-in library to run the definitions on: its digest is not SHA-1, it only has the
  length of one and depends on key and message.
\<close>

definition sample_library :: library where
  "sample_library =
     \<lparr>now = 1600000000,
      b64decode = (\<lambda>s. if s = [] then Inl BinasciiError else Inr (map of_char s)),
      b64encode = map (\<lambda>b. char_of b),
      hmac_sha1 = (\<lambda>key msg. map (\<lambda>i. (sum_list key + sum_list msg + int i * 37) mod 256) [0..<20])\<rparr>"

text \<open>
  The one-time code in the words of the specification: HMAC-SHA1 over the 8-byte
  big-endian encoding of \<open>floor(timestamp / 30)\<close>, the 4 bytes at the offset given by the
  low nibble of byte 19 read big-endian, masked to 31 bits, then five base-26 digits over
  the alphabet, least significant first.
\<close>

definition big_endian :: "nat \<Rightarrow> int \<Rightarrow> int list" where
  "big_endian n v = map (\<lambda>i. (v div 256 ^ (n - 1 - i)) mod 256) [0..<n]"

definition big_endian_value :: "int list \<Rightarrow> int" where
  "big_endian_value bs = foldl (\<lambda>acc b. acc * 256 + b) 0 bs"

definition one_time_code_spec ::
  "(int list \<Rightarrow> int list \<Rightarrow> int list) \<Rightarrow> int list \<Rightarrow> int \<Rightarrow> string" where
  "one_time_code_spec hmac key timestamp =
     (let digest = hmac key (big_endian 8 (timestamp div 30));
          offset = nat (digest ! 19 mod 16);
          masked = big_endian_value (take 4 (drop offset digest)) mod 2 ^ 31
      in map (\<lambda>k. ''23456789BCDFGHJKMNPQRTVWXY'' ! nat ((masked div 26 ^ k) mod 26)) [0..<5])"

section \<open>Properties\<close>

subsection \<open>Asset equality\<close>

text \<open>
  Claim C9. Asset equality is determined solely by \<open>(class_id, instance_id)\<close>: two assets
  whose class id and instance id agree compare equal whatever their amount, asset id,
  application id and game are; if the class id or the instance id differs they compare
  unequal; and \<open>!=\<close> is the negation of \<open>==\<close>.
\<close>

theorem asset_eq_by_class_and_instance:
  fixes a b :: asset
  shows "(class_id a = class_id b \<and> instance_id a = instance_id b
            \<longrightarrow> asset_eq a (AssetObject b))
       \<and> (class_id a \<noteq> class_id b \<or> instance_id a \<noteq> instance_id b
            \<longrightarrow> \<not> asset_eq a (AssetObject b))
       \<and> asset_ne a (AssetObject b) = (\<not> asset_eq a (AssetObject b))"
  by (auto simp: asset_ne_def)

theorem asset_eq_by_class_and_instance_witness:
  "asset_eq \<lparr>game = Game (PStr ''440''), amount = 1, app_id = 440, class_id = 10,
             asset_id = 7, instance_id = 0\<rparr>
     (AssetObject \<lparr>game = Game (PStr ''730''), amount = 5, app_id = 730, class_id = 10,
             asset_id = 8, instance_id = 0\<rparr>)
   \<and> \<not> asset_eq \<lparr>game = Game (PStr ''440''), amount = 1, app_id = 440, class_id = 10,
             asset_id = 7, instance_id = 0\<rparr>
     (AssetObject \<lparr>game = Game (PStr ''440''), amount = 1, app_id = 440, class_id = 11,
             asset_id = 7, instance_id = 0\<rparr>)"
  using asset_eq_by_class_and_instance
      [of "\<lparr>game = Game (PStr ''440''), amount = 1, app_id = 440, class_id = 10,
             asset_id = 7, instance_id = 0\<rparr>"
          "\<lparr>game = Game (PStr ''730''), amount = 5, app_id = 730, class_id = 10,
             asset_id = 8, instance_id = 0\<rparr>"]
    asset_eq_by_class_and_instance
      [of "\<lparr>game = Game (PStr ''440''), amount = 1, app_id = 440, class_id = 10,
             asset_id = 7, instance_id = 0\<rparr>"
          "\<lparr>game = Game (PStr ''440''), amount = 1, app_id = 440, class_id = 11,
             asset_id = 7, instance_id = 0\<rparr>"]
  by simp


subsection \<open>State guards of TradeOffer\<close>

text \<open>
  Claim C4. On an offer whose state is \<open>Accepted\<close>, \<open>accept\<close> makes no call to a
  collaborator. The error it raises is the one of the first check, "This trade is not
  active": the check for "already been accepted" comes second and is behind
  \<open>state != Active\<close>, so it is never reached.
\<close>

theorem accept_on_accepted:
  "state self = Accepted \<Longrightarrow>
     accept env self = (Inl (ClientException ''This trade is not active''), [])"
  by (simp add: accept_def)

theorem accept_on_accepted_witness:
  "accept sample_env (sample_offer Accepted [] [])
     = (Inl (ClientException ''This trade is not active''), [])
   \<and> fst (accept sample_env (sample_offer Accepted [] []))
     \<noteq> Inl (ClientException ''This trade has already been accepted'')"
  using accept_on_accepted [of "sample_offer Accepted [] []" sample_env]
  by (simp add: sample_offer_def)

text \<open>
  Claim C5. In \<open>decline\<close> and \<open>cancel\<close> the operand of \<open>not in\<close> is
  \<open>(Active or ConfirmationNeed)\<close>, which is the member \<open>Active\<close>; membership in a member is
  a \<open>TypeError\<close>. So in every state, \<open>Active\<close> and \<open>ConfirmationNeed\<close> included, both
  methods raise \<open>TypeError\<close> before any call: the check never raises "This trade is not
  active" and never passes.
\<close>

theorem decline_cancel_state_check:
  "decline env self = (Inl TypeError, []) \<and> cancel env self = (Inl TypeError, [])"
  by (simp add: decline_def cancel_def py_not_in_def py_or_def)

text \<open>
  Claim C6. On an active offer that is not a gift and not ours, \<open>cancel\<close> makes no call,
  but the error is the \<open>TypeError\<close> of the state check, not the \<open>ClientException\<close> of
  the gift check, which is never reached.
\<close>

theorem cancel_active_not_gift:
  "cancel sample_env (sample_offer Active [sample_item PNone 10 0 1 False] [])
     = (Inl TypeError, [])
   \<and> state (sample_offer Active [sample_item PNone 10 0 1 False] []) = Active
   \<and> \<not> is_gift (sample_offer Active [sample_item PNone 10 0 1 False] [])
   \<and> \<not> is_our_offer (sample_offer Active [sample_item PNone 10 0 1 False] [])"
  by (simp add: cancel_def py_not_in_def py_or_def sample_offer_def is_gift_def
      is_our_offer_def)

subsection \<open>The confirmation loop of the send flow\<close>

lemma confirm_loop_calls:
  "confirm_calls (snd (confirm_loop f ts r)) \<le> confirm_calls r + length ts"
proof (induction ts arbitrary: r)
  case Nil
  then show ?case by simp
next
  case (Cons t ts)
  have ih: "confirm_calls (snd (confirm_loop f ts r')) \<le> confirm_calls r' + length ts" for r'
    by (rule Cons.IH)
  show ?case
    using ih [of "r\<lparr>confirm_calls := confirm_calls r + 1\<rparr>"]
      ih [of "r\<lparr>confirm_calls := confirm_calls r + 1, slept := slept r @ [int t * 2]\<rparr>"]
    by (simp split: sum.splits)
qed

lemma confirm_loop_sorted:
  "sorted_wrt (<) ts \<Longrightarrow> sorted_wrt (<) (slept r) \<Longrightarrow>
   (\<forall>d \<in> set (slept r). \<forall>t \<in> set ts. d < int t * 2) \<Longrightarrow>
   sorted_wrt (<) (slept (snd (confirm_loop f ts r)))"
proof (induction ts arbitrary: r)
  case Nil
  then show ?case by simp
next
  case (Cons t ts)
  show ?case
  proof (cases "f (confirm_calls r)")
    case (Inr u)
    then show ?thesis using Cons by simp
  next
    case (Inl e)
    show ?thesis
    proof (cases "is_ConfirmationError e")
      case True
      then show ?thesis using Inl Cons.prems by simp
    next
      case False
      show ?thesis
      proof (cases "is_ClientException e")
        case True
        have "sorted_wrt (<) (slept (snd (confirm_loop f ts
                (r\<lparr>confirm_calls := confirm_calls r + 1, slept := slept r @ [int t * 2]\<rparr>))))"
          using Cons.prems by (intro Cons.IH) (auto simp: sorted_wrt_append)
        then show ?thesis using Inl False True by simp
      next
        case F2: False
        then show ?thesis using Inl False Cons.prems by simp
      qed
    qed
  qed
qed

text \<open>
  Claim C3. When confirmation is pending, \<open>confirm()\<close> is called at most 5 times. If the
  first four calls raise \<open>ClientException\<close> and the fifth returns, the loop ends without
  an error after 5 calls, having slept 0, 2, 4 and 6 (\<open>tries * 2\<close>, strictly
  increasing). If the first call raises \<open>ConfirmationError\<close> the loop ends after that one
  call, without sleeping. The delays are strictly increasing in every run, and whenever
  the loop is left (not by an exception it does not catch) the state is \<open>Active\<close>.
\<close>

theorem send_confirmation_backoff:
  "(trade_confirm 0 = Inl (ClientException m0) \<and> trade_confirm 1 = Inl (ClientException m1)
      \<and> trade_confirm 2 = Inl (ClientException m2) \<and> trade_confirm 3 = Inl (ClientException m3)
      \<and> trade_confirm 4 = Inr ()
     \<longrightarrow> send_confirmation trade_confirm True trade
          = (Inr (trade\<lparr>state := Active\<rparr>), \<lparr>confirm_calls = 5, slept = [0, 2, 4, 6]\<rparr>))
   \<and> (trade_confirm 0 = Inl (ConfirmationError m)
     \<longrightarrow> send_confirmation trade_confirm True trade
          = (Inr (trade\<lparr>state := Active\<rparr>), \<lparr>confirm_calls = 1, slept = []\<rparr>))
   \<and> confirm_calls (snd (send_confirmation trade_confirm True trade)) \<le> 5
   \<and> sorted_wrt (<) (slept (snd (send_confirmation trade_confirm True trade)))
   \<and> (\<forall>trade'. fst (send_confirmation trade_confirm True trade) = Inr trade'
         \<longrightarrow> state trade' = Active)"
proof (intro conjI impI allI)
  assume "trade_confirm 0 = Inl (ClientException m0) \<and> trade_confirm 1 = Inl (ClientException m1)
      \<and> trade_confirm 2 = Inl (ClientException m2) \<and> trade_confirm 3 = Inl (ClientException m3)
      \<and> trade_confirm 4 = Inr ()"
  then show "send_confirmation trade_confirm True trade
          = (Inr (trade\<lparr>state := Active\<rparr>), \<lparr>confirm_calls = 5, slept = [0, 2, 4, 6]\<rparr>)"
    by (simp add: send_confirmation_def range_def is_ConfirmationError_def is_ClientException_def
        eval_nat_numeral)
next
  assume "trade_confirm 0 = Inl (ConfirmationError m)"
  then show "send_confirmation trade_confirm True trade
          = (Inr (trade\<lparr>state := Active\<rparr>), \<lparr>confirm_calls = 1, slept = []\<rparr>)"
    by (simp add: send_confirmation_def range_def is_ConfirmationError_def eval_nat_numeral)
next
  have "confirm_calls (snd (confirm_loop trade_confirm (range 5) \<lparr>confirm_calls = 0, slept = []\<rparr>)) \<le> 5"
    using confirm_loop_calls [of trade_confirm "range 5" "\<lparr>confirm_calls = 0, slept = []\<rparr>"]
    by (simp add: range_def)
  then show "confirm_calls (snd (send_confirmation trade_confirm True trade)) \<le> 5"
    by (auto simp: send_confirmation_def split: prod.splits sum.splits)
next
  have "sorted_wrt (<) (slept (snd (confirm_loop trade_confirm (range 5) \<lparr>confirm_calls = 0, slept = []\<rparr>)))"
    by (rule confirm_loop_sorted) (simp_all add: range_def)
  then show "sorted_wrt (<) (slept (snd (send_confirmation trade_confirm True trade)))"
    by (auto simp: send_confirmation_def split: prod.splits sum.splits)
next
  fix trade'
  assume "fst (send_confirmation trade_confirm True trade) = Inr trade'"
  then show "state trade' = Active"
    by (auto simp: send_confirmation_def split: prod.splits sum.splits)
qed


theorem send_confirmation_backoff_witness:
  "send_confirmation fails_four_times True (sample_offer ConfirmationNeed [] [])
     = (Inr ((sample_offer ConfirmationNeed [] [])\<lparr>state := Active\<rparr>),
        \<lparr>confirm_calls = 5, slept = [0, 2, 4, 6]\<rparr>)
   \<and> send_confirmation no_confirmation True (sample_offer ConfirmationNeed [] [])
     = (Inr ((sample_offer ConfirmationNeed [] [])\<lparr>state := Active\<rparr>),
        \<lparr>confirm_calls = 1, slept = []\<rparr>)"
  using send_confirmation_backoff
      [of fails_four_times "''not yet''" "''not yet''" "''not yet''" "''not yet''"
          "sample_offer ConfirmationNeed [] []" "''''"]
    send_confirmation_backoff
      [of no_confirmation "''''" "''''" "''''" "''''" "sample_offer ConfirmationNeed [] []"
          "''No matching confirmation could be found for this trade''"]
  by (simp add: fails_four_times_def no_confirmation_def)

subsection \<open>The retry policy of confirmation operations\<close>

lemma retry_returns:
  "body (s\<lparr>attempts := attempts s + 1\<rparr>) = (Inr u, s') \<Longrightarrow> retry body n s = (Inr u, s')"
  by (subst retry.simps) simp

lemma retry_again:
  "body (s\<lparr>attempts := attempts s + 1\<rparr>) = (Inl e, s') \<Longrightarrow> n < 4 \<Longrightarrow>
     retry body n s = retry body (n + 1) (s'\<lparr>waits := waits s' @ [4]\<rparr>)"
  by (subst retry.simps) simp

lemma retry_gives_up:
  "body (s\<lparr>attempts := attempts s + 1\<rparr>) = (Inl e, s') \<Longrightarrow> 4 \<le> n \<Longrightarrow>
     retry body n s = (Inl (RetryError e), s')"
  by (subst retry.simps) simp

lemma perform_op_body_keeps:
  "attempts (snd (perform_op_body env self op s)) = attempts s
   \<and> waits (snd (perform_op_body env self op s)) = waits s"
  by (simp add: perform_op_body_def assert_valid_def split: sum.splits prod.splits)

lemma retry_bounded:
  "(\<forall>t. attempts (snd (body t)) = attempts t \<and> waits (snd (body t)) = waits t) \<Longrightarrow>
   1 \<le> n \<and> n \<le> 4 \<Longrightarrow>
     attempts s < attempts (snd (retry body n s))
     \<and> attempts (snd (retry body n s)) \<le> attempts s + (5 - n)
     \<and> waits (snd (retry body n s))
         = waits s @ replicate (attempts (snd (retry body n s)) - attempts s - 1) 4"
proof (induction body n s rule: retry.induct)
  case (1 body n s)
  have keeps: "attempts (snd (body t)) = attempts t \<and> waits (snd (body t)) = waits t" for t
    using "1.prems"(1) by blast
  have n1: "1 \<le> n" "n \<le> 4" using "1.prems"(2) by simp_all
  obtain r s' where b: "body (s\<lparr>attempts := attempts s + 1\<rparr>) = (r, s')"
    by (cases "body (s\<lparr>attempts := attempts s + 1\<rparr>)")
  have sb: "s' = snd (body (s\<lparr>attempts := attempts s + 1\<rparr>))"
    unfolding b by simp
  have k: "attempts s' = attempts s + 1" "waits s' = waits s"
    unfolding sb using keeps [of "s\<lparr>attempts := attempts s + 1\<rparr>"] by simp_all
  show ?case
  proof (cases r)
    case (Inr u)
    then show ?thesis using b k n1 retry_returns [of body s u s' n] by simp
  next
    case (Inl e)
    show ?thesis
    proof (cases "4 \<le> n")
      case True
      then show ?thesis using b k n1 Inl retry_gives_up [of body s e s' n] by simp
    next
      case False
      have step: "retry body n s = retry body (n + 1) (s'\<lparr>waits := waits s' @ [4]\<rparr>)"
        using b Inl False retry_again [of body s e s' n] by simp
      have ih: "attempts (s'\<lparr>waits := waits s' @ [4]\<rparr>)
            < attempts (snd (retry body (n + 1) (s'\<lparr>waits := waits s' @ [4]\<rparr>)))
         \<and> attempts (snd (retry body (n + 1) (s'\<lparr>waits := waits s' @ [4]\<rparr>)))
            \<le> attempts (s'\<lparr>waits := waits s' @ [4]\<rparr>) + (5 - (n + 1))
         \<and> waits (snd (retry body (n + 1) (s'\<lparr>waits := waits s' @ [4]\<rparr>)))
            = waits (s'\<lparr>waits := waits s' @ [4]\<rparr>)
              @ replicate (attempts (snd (retry body (n + 1) (s'\<lparr>waits := waits s' @ [4]\<rparr>)))
                            - attempts (s'\<lparr>waits := waits s' @ [4]\<rparr>) - 1) 4"

        using "1.IH" b Inl False "1.prems"(1) n1 by simp
      define m where "m = attempts (snd (retry body (n + 1) (s'\<lparr>waits := waits s' @ [4]\<rparr>)))"
      have m1: "attempts s + 1 < m" "m \<le> attempts s + 1 + (5 - (n + 1))"
        and m2: "waits (snd (retry body (n + 1) (s'\<lparr>waits := waits s' @ [4]\<rparr>)))
                  = waits s @ [4] @ replicate (m - (attempts s + 1) - 1) 4"
        using ih k by (simp_all add: m_def)
      have "[4] @ replicate (m - (attempts s + 1) - 1) (4::int) = replicate (m - attempts s - 1) 4"
      proof -
        have "m - attempts s - 1 = Suc (m - (attempts s + 1) - 1)" using m1 by simp
        then show ?thesis by simp
      qed
      then have m3: "waits (snd (retry body (n + 1) (s'\<lparr>waits := waits s' @ [4]\<rparr>)))
                  = waits s @ replicate (m - attempts s - 1) 4"
        using m2 by simp
      have m4: "attempts s < m" "m \<le> attempts s + (5 - n)"
        using m1 n1 False by simp_all
      show ?thesis
        unfolding step m_def [symmetric] using m3 m4 unfolding m_def [symmetric] by simp
    qed
  qed
qed

lemma body_refused:
  assumes "generate_confirmation_code_of_state env op = Inr ct"
    and "\<forall>url params. http_get env (gets s) url params = Inr r"
    and "\<not> truthy (response_get r ''success'' (PBool False))"
  shows "perform_op_body env self op s
     = (Inl (ConfirmationError ''''),
        s\<lparr>gets := gets s + 1,
          confirmations_to_ignore := confirmations_to_ignore s @ [trade_id self]\<rparr>)"
  using assms by (cases ct) (simp add: perform_op_body_def confirm_params_def assert_valid_def)

lemma body_granted:
  assumes "generate_confirmation_code_of_state env op = Inr ct"
    and "\<forall>url params. http_get env (gets s) url params = Inr r"
    and "truthy (response_get r ''success'' (PBool False))"
    and "op = ''allow'' \<longrightarrow> \<not> py_eq (resp_json r) (PDict [(''success'', PBool False)])"
  shows "perform_op_body env self op s = (Inr (), s\<lparr>gets := gets s + 1\<rparr>)"
  using assms by (cases ct) (simp add: perform_op_body_def confirm_params_def assert_valid_def)

lemma body_allow_degenerate:
  assumes "generate_confirmation_code_of_state env ''allow'' = Inr ct"
    and "\<forall>url params. http_get env (gets s) url params = Inr r"
    and "py_eq (resp_json r) (PDict [(''success'', PBool False)])"
  shows "\<exists>e ign. perform_op_body env self ''allow'' s
     = (Inl e, s\<lparr>gets := gets s + 1, confirmations_to_ignore := ign\<rparr>)"
proof (cases "truthy (response_get r ''success'' (PBool False))")
  case True
  have "perform_op_body env self ''allow'' s
      = (Inl TryAgain, s\<lparr>gets := gets s + 1, confirmations_to_ignore := confirmations_to_ignore s\<rparr>)"
    using assms True
    by (cases ct) (simp add: perform_op_body_def confirm_params_def assert_valid_def)
  then show ?thesis by blast
next
  case False
  then show ?thesis using body_refused [OF assms(1) assms(2) False, of self] by blast
qed

lemma allow_two_refusals_then_granted:
  assumes gen: "generate_confirmation_code_of_state env ''allow'' = Inr ct"
    and g0: "\<forall>url params. http_get env (gets s) url params = Inr r0"
    and g1: "\<forall>url params. http_get env (gets s + 1) url params = Inr r1"
    and g2: "\<forall>url params. http_get env (gets s + 2) url params = Inr r2"
    and f0: "py_eq (resp_json r0) (PDict [(''success'', PBool False)])"
    and f1: "py_eq (resp_json r1) (PDict [(''success'', PBool False)])"
    and t2: "truthy (response_get r2 ''success'' (PBool False))"
    and n2: "\<not> py_eq (resp_json r2) (PDict [(''success'', PBool False)])"
  shows "fst (perform_op env self ''allow'' s) = Inr ()
       \<and> attempts (snd (perform_op env self ''allow'' s)) = attempts s + 3
       \<and> waits (snd (perform_op env self ''allow'' s)) = waits s @ [4, 4]"
proof -
  let ?body = "perform_op_body env self ''allow''"
  define a0 where "a0 = s\<lparr>attempts := attempts s + 1\<rparr>"
  have a0: "gets a0 = gets s" "attempts a0 = attempts s + 1" "waits a0 = waits s"
    by (simp_all add: a0_def)
  obtain e0 i0 where b0:
    "?body a0 = (Inl e0, a0\<lparr>gets := gets a0 + 1, confirmations_to_ignore := i0\<rparr>)"
    using body_allow_degenerate [of env ct a0 r0 self] gen g0 f0 a0 by auto
  define s1 where
    "s1 = (a0\<lparr>gets := gets a0 + 1, confirmations_to_ignore := i0\<rparr>)
            \<lparr>waits := waits a0 @ [4]\<rparr>"
  have s1: "gets s1 = gets s + 1" "attempts s1 = attempts s + 1" "waits s1 = waits s @ [4]"
    by (simp_all add: s1_def a0)
  have step0: "retry ?body 1 s = retry ?body 2 s1"
    using retry_again [of ?body s e0 "a0\<lparr>gets := gets a0 + 1, confirmations_to_ignore := i0\<rparr>" 1]
      b0 by (simp add: a0_def s1_def eval_nat_numeral)
  define a1 where "a1 = s1\<lparr>attempts := attempts s1 + 1\<rparr>"
  have a1: "gets a1 = gets s + 1" "attempts a1 = attempts s + 2" "waits a1 = waits s @ [4]"
    by (simp_all add: a1_def s1)
  obtain e1 i1 where b1:
    "?body a1 = (Inl e1, a1\<lparr>gets := gets a1 + 1, confirmations_to_ignore := i1\<rparr>)"
    using body_allow_degenerate [of env ct a1 r1 self] gen g1 f1 a1 by auto
  define s2 where
    "s2 = (a1\<lparr>gets := gets a1 + 1, confirmations_to_ignore := i1\<rparr>)
            \<lparr>waits := waits a1 @ [4]\<rparr>"
  have s2: "gets s2 = gets s + 2" "attempts s2 = attempts s + 2" "waits s2 = waits s @ [4, 4]"
    by (simp_all add: s2_def a1)
  have step1: "retry ?body 2 s1 = retry ?body 3 s2"
    using retry_again [of ?body s1 e1 "a1\<lparr>gets := gets a1 + 1, confirmations_to_ignore := i1\<rparr>" 2]
      b1 by (simp add: a1_def s2_def eval_nat_numeral)
  define a2 where "a2 = s2\<lparr>attempts := attempts s2 + 1\<rparr>"
  have a2: "gets a2 = gets s + 2" "attempts a2 = attempts s + 3" "waits a2 = waits s @ [4, 4]"
    by (simp_all add: a2_def s2)
  have b2: "?body a2 = (Inr (), a2\<lparr>gets := gets a2 + 1\<rparr>)"
    using body_granted [of env "''allow''" ct a2 r2 self] gen g2 t2 n2 a2 by simp
  have step2: "retry ?body 3 s2 = (Inr (), a2\<lparr>gets := gets a2 + 1\<rparr>)"
    using retry_returns [of ?body s2 "()" "a2\<lparr>gets := gets a2 + 1\<rparr>" 3] b2
    by (simp add: a2_def)
  have "perform_op env self ''allow'' s = (Inr (), a2\<lparr>gets := gets a2 + 1\<rparr>)"
    unfolding perform_op_def step0 step1 step2 by simp
  then show ?thesis by (simp add: a2)
qed

lemma retry_refused_then_granted:
  assumes gen: "generate_confirmation_code_of_state env op = Inr ct"
  shows "n + j \<le> 4 \<Longrightarrow>
     (\<forall>i<j. (\<forall>url params. http_get env (gets s + i) url params = Inr (rs i))
             \<and> \<not> truthy (response_get (rs i) ''success'' (PBool False))) \<Longrightarrow>
     (\<forall>url params. http_get env (gets s + j) url params = Inr r) \<Longrightarrow>
     truthy (response_get r ''success'' (PBool False)) \<Longrightarrow>
     (op = ''allow'' \<longrightarrow> \<not> py_eq (resp_json r) (PDict [(''success'', PBool False)])) \<Longrightarrow>
     retry (perform_op_body env self op) n s
       = (Inr (), s\<lparr>attempts := attempts s + j + 1, gets := gets s + j + 1,
            confirmations_to_ignore := confirmations_to_ignore s @ replicate j (trade_id self),
            waits := waits s @ replicate j 4\<rparr>)"
proof (induction j arbitrary: n s rs)
  case 0
  let ?a = "s\<lparr>attempts := attempts s + 1\<rparr>"
  have "perform_op_body env self op ?a = (Inr (), ?a\<lparr>gets := gets ?a + 1\<rparr>)"
    using body_granted [of env op ct ?a r self] gen "0.prems" by simp
  then show ?case
    using retry_returns [of "perform_op_body env self op" s "()" "?a\<lparr>gets := gets ?a + 1\<rparr>" n]
    by simp
next
  case (Suc j)
  let ?a = "s\<lparr>attempts := attempts s + 1\<rparr>"
  let ?f = "?a\<lparr>gets := gets ?a + 1,
              confirmations_to_ignore := confirmations_to_ignore ?a @ [trade_id self]\<rparr>"
  let ?s1 = "?f\<lparr>waits := waits ?f @ [4]\<rparr>"
  have first: "(\<forall>url params. http_get env (gets s) url params = Inr (rs 0))
      \<and> \<not> truthy (response_get (rs 0) ''success'' (PBool False))"
    using Suc.prems(2) by force
  have b: "perform_op_body env self op ?a = (Inl (ConfirmationError ''''), ?f)"
    using body_refused [of env op ct ?a "rs 0" self] gen first by simp
  have n: "n < 4" "n + 1 + j \<le> 4" using Suc.prems(1) by simp_all
  have step: "retry (perform_op_body env self op) n s
      = retry (perform_op_body env self op) (n + 1) ?s1"
    using retry_again [of "perform_op_body env self op" s "ConfirmationError ''''" ?f n] b n
    by simp
  have g1: "gets ?s1 = gets s + 1" by simp
  have later: "\<forall>i<j. (\<forall>url params. http_get env (gets ?s1 + i) url params = Inr (rs (Suc i)))
             \<and> \<not> truthy (response_get (rs (Suc i)) ''success'' (PBool False))"
  proof (intro allI impI)
    fix i assume "i < j"
    then have "Suc i < Suc j" by simp
    with Suc.prems(2)
    have "(\<forall>url params. http_get env (gets s + Suc i) url params = Inr (rs (Suc i)))
             \<and> \<not> truthy (response_get (rs (Suc i)) ''success'' (PBool False))"
      by blast
    then show "(\<forall>url params. http_get env (gets ?s1 + i) url params = Inr (rs (Suc i)))
             \<and> \<not> truthy (response_get (rs (Suc i)) ''success'' (PBool False))"
      unfolding g1 by simp
  qed
  have last: "\<forall>url params. http_get env (gets ?s1 + j) url params = Inr r"
    unfolding g1 using Suc.prems(3) by simp
  have "retry (perform_op_body env self op) (n + 1) ?s1
      = (Inr (), ?s1\<lparr>attempts := attempts ?s1 + j + 1, gets := gets ?s1 + j + 1,
            confirmations_to_ignore := confirmations_to_ignore ?s1 @ replicate j (trade_id self),
            waits := waits ?s1 @ replicate j 4\<rparr>)"
    using Suc.IH [of "n + 1" ?s1 "\<lambda>i. rs (Suc i)"] n(2) later last Suc.prems(4) Suc.prems(5)
    by blast
  then show ?case unfolding step by simp
qed

lemma retry_refused_to_the_end:
  assumes gen: "generate_confirmation_code_of_state env op = Inr ct"
  shows "n + k = 4 \<Longrightarrow>
     (\<forall>i<Suc k. (\<forall>url params. http_get env (gets s + i) url params = Inr (rs i))
             \<and> \<not> truthy (response_get (rs i) ''success'' (PBool False))) \<Longrightarrow>
     retry (perform_op_body env self op) n s
       = (Inl (RetryError (ConfirmationError '''')),
          s\<lparr>attempts := attempts s + Suc k, gets := gets s + Suc k,
            confirmations_to_ignore := confirmations_to_ignore s @ replicate (Suc k) (trade_id self),
            waits := waits s @ replicate k 4\<rparr>)"
proof (induction k arbitrary: n s rs)
  case 0
  let ?a = "s\<lparr>attempts := attempts s + 1\<rparr>"
  let ?f = "?a\<lparr>gets := gets ?a + 1,
              confirmations_to_ignore := confirmations_to_ignore ?a @ [trade_id self]\<rparr>"
  have first: "(\<forall>url params. http_get env (gets s) url params = Inr (rs 0))
      \<and> \<not> truthy (response_get (rs 0) ''success'' (PBool False))"
    using "0.prems"(2) by force
  have b: "perform_op_body env self op ?a = (Inl (ConfirmationError ''''), ?f)"
    using body_refused [of env op ct ?a "rs 0" self] gen first by simp
  have "4 \<le> n" using "0.prems"(1) by simp
  then show ?case
    using retry_gives_up [of "perform_op_body env self op" s "ConfirmationError ''''" ?f n] b
    by simp
next
  case (Suc k)
  let ?a = "s\<lparr>attempts := attempts s + 1\<rparr>"
  let ?f = "?a\<lparr>gets := gets ?a + 1,
              confirmations_to_ignore := confirmations_to_ignore ?a @ [trade_id self]\<rparr>"
  let ?s1 = "?f\<lparr>waits := waits ?f @ [4]\<rparr>"
  have first: "(\<forall>url params. http_get env (gets s) url params = Inr (rs 0))
      \<and> \<not> truthy (response_get (rs 0) ''success'' (PBool False))"
    using Suc.prems(2) by force
  have b: "perform_op_body env self op ?a = (Inl (ConfirmationError ''''), ?f)"
    using body_refused [of env op ct ?a "rs 0" self] gen first by simp
  have n: "n < 4" "n + 1 + k = 4" using Suc.prems(1) by simp_all
  have step: "retry (perform_op_body env self op) n s
      = retry (perform_op_body env self op) (n + 1) ?s1"
    using retry_again [of "perform_op_body env self op" s "ConfirmationError ''''" ?f n] b n
    by simp
  have g1: "gets ?s1 = gets s + 1" by simp
  have later: "\<forall>i<Suc k. (\<forall>url params. http_get env (gets ?s1 + i) url params = Inr (rs (Suc i)))
             \<and> \<not> truthy (response_get (rs (Suc i)) ''success'' (PBool False))"
  proof (intro allI impI)
    fix i assume "i < Suc k"
    then have "Suc i < Suc (Suc k)" by simp
    with Suc.prems(2)
    have "(\<forall>url params. http_get env (gets s + Suc i) url params = Inr (rs (Suc i)))
             \<and> \<not> truthy (response_get (rs (Suc i)) ''success'' (PBool False))"
      by blast
    then show "(\<forall>url params. http_get env (gets ?s1 + i) url params = Inr (rs (Suc i)))
             \<and> \<not> truthy (response_get (rs (Suc i)) ''success'' (PBool False))"
      unfolding g1 by simp
  qed
  have "retry (perform_op_body env self op) (n + 1) ?s1
      = (Inl (RetryError (ConfirmationError '''')),
          ?s1\<lparr>attempts := attempts ?s1 + Suc k, gets := gets ?s1 + Suc k,
            confirmations_to_ignore := confirmations_to_ignore ?s1 @ replicate (Suc k) (trade_id self),
            waits := waits ?s1 @ replicate k 4\<rparr>)"
    using Suc.IH [of "n + 1" ?s1 "\<lambda>i. rs (Suc i)"] n(2) later by blast
  then show ?case unfolding step by (simp add: replicate_append_same)
qed


text \<open>
  Claim C2. An \<open>allow\<close> operation whose first two responses have the body
  \<open>{"success": false}\<close> and whose third has a true \<open>success\<close> succeeds after exactly 3
  attempts, with a wait of 4 after each failed one. Every operation makes at most 4
  attempts and every wait is 4. A \<open>cancel\<close> operation is under the same wrapper: each
  response with a falsy \<open>success\<close> records the trade id and raises
  \<open>ConfirmationError\<close>, which the wrapper catches and retries. So a \<open>cancel\<close> refused
  \<open>j \<le> 3\<close> times and then answered with a true \<open>success\<close> succeeds at attempt \<open>j + 1\<close>,
  having recorded the trade id \<open>j\<close> times and waited \<open>j\<close> times; refused four times it
  fails with \<open>RetryError\<close> around the \<open>ConfirmationError\<close>.
\<close>

theorem perform_op_retry_policy:
  "(generate_confirmation_code_of_state env ''allow'' = Inr ct
      \<and> (\<forall>url params. http_get env (gets s) url params = Inr ra)
      \<and> (\<forall>url params. http_get env (gets s + 1) url params = Inr rb)
      \<and> (\<forall>url params. http_get env (gets s + 2) url params = Inr rc)
      \<and> py_eq (resp_json ra) (PDict [(''success'', PBool False)])
      \<and> py_eq (resp_json rb) (PDict [(''success'', PBool False)])
      \<and> truthy (response_get rc ''success'' (PBool False))
      \<and> \<not> py_eq (resp_json rc) (PDict [(''success'', PBool False)])
     \<longrightarrow> fst (Confirmation_confirm env self s) = Inr ()
         \<and> attempts (snd (Confirmation_confirm env self s)) = attempts s + 3
         \<and> waits (snd (Confirmation_confirm env self s)) = waits s @ [4, 4])
   \<and> attempts (snd (perform_op env self op s)) \<le> attempts s + 4
   \<and> waits (snd (perform_op env self op s))
       = waits s @ replicate (attempts (snd (perform_op env self op s)) - attempts s - 1) 4
   \<and> (generate_confirmation_code_of_state env ''cancel'' = Inr ct
      \<and> j \<le> 3
      \<and> (\<forall>i<j. (\<forall>url params. http_get env (gets s + i) url params = Inr (rs i))
                \<and> \<not> truthy (response_get (rs i) ''success'' (PBool False)))
      \<and> (\<forall>url params. http_get env (gets s + j) url params = Inr r)
      \<and> truthy (response_get r ''success'' (PBool False))
     \<longrightarrow> Confirmation_cancel env self s
          = (Inr (), s\<lparr>attempts := attempts s + j + 1, gets := gets s + j + 1,
               confirmations_to_ignore :=
                 confirmations_to_ignore s @ replicate j (trade_id self),
               waits := waits s @ replicate j 4\<rparr>))
   \<and> (generate_confirmation_code_of_state env ''cancel'' = Inr ct
      \<and> (\<forall>i<4. (\<forall>url params. http_get env (gets s + i) url params = Inr (rs i))
                \<and> \<not> truthy (response_get (rs i) ''success'' (PBool False)))
     \<longrightarrow> Confirmation_cancel env self s
          = (Inl (RetryError (ConfirmationError '''')),
             s\<lparr>attempts := attempts s + 4, gets := gets s + 4,
               confirmations_to_ignore :=
                 confirmations_to_ignore s @ replicate 4 (trade_id self),
               waits := waits s @ replicate 3 4\<rparr>))"
proof (intro conjI impI)
  assume "generate_confirmation_code_of_state env ''allow'' = Inr ct
      \<and> (\<forall>url params. http_get env (gets s) url params = Inr ra)
      \<and> (\<forall>url params. http_get env (gets s + 1) url params = Inr rb)
      \<and> (\<forall>url params. http_get env (gets s + 2) url params = Inr rc)
      \<and> py_eq (resp_json ra) (PDict [(''success'', PBool False)])
      \<and> py_eq (resp_json rb) (PDict [(''success'', PBool False)])
      \<and> truthy (response_get rc ''success'' (PBool False))
      \<and> \<not> py_eq (resp_json rc) (PDict [(''success'', PBool False)])"
  then have *: "fst (perform_op env self ''allow'' s) = Inr ()
       \<and> attempts (snd (perform_op env self ''allow'' s)) = attempts s + 3
       \<and> waits (snd (perform_op env self ''allow'' s)) = waits s @ [4, 4]"
    using allow_two_refusals_then_granted [of env ct s ra rb rc self] by blast
  show "fst (Confirmation_confirm env self s) = Inr ()"
    using * by (simp add: Confirmation_confirm_def)
  show "attempts (snd (Confirmation_confirm env self s)) = attempts s + 3"
    using * by (simp add: Confirmation_confirm_def)
  show "waits (snd (Confirmation_confirm env self s)) = waits s @ [4, 4]"
    using * by (simp add: Confirmation_confirm_def)
next
  have b: "attempts s < attempts (snd (retry (perform_op_body env self op) 1 s))
     \<and> attempts (snd (retry (perform_op_body env self op) 1 s)) \<le> attempts s + (5 - 1)
     \<and> waits (snd (retry (perform_op_body env self op) 1 s))
         = waits s @ replicate (attempts (snd (retry (perform_op_body env self op) 1 s))
                                 - attempts s - 1) 4"
    by (rule retry_bounded) (simp_all add: perform_op_body_keeps)
  show "attempts (snd (perform_op env self op s)) \<le> attempts s + 4"
    using b by (simp add: perform_op_def)
  show "waits (snd (perform_op env self op s))
       = waits s @ replicate (attempts (snd (perform_op env self op s)) - attempts s - 1) 4"
    using b by (simp add: perform_op_def)
next
  assume h: "generate_confirmation_code_of_state env ''cancel'' = Inr ct
      \<and> j \<le> 3
      \<and> (\<forall>i<j. (\<forall>url params. http_get env (gets s + i) url params = Inr (rs i))
                \<and> \<not> truthy (response_get (rs i) ''success'' (PBool False)))
      \<and> (\<forall>url params. http_get env (gets s + j) url params = Inr r)
      \<and> truthy (response_get r ''success'' (PBool False))"
  then have "1 + j \<le> 4" by simp
  then have "retry (perform_op_body env self ''cancel'') 1 s
       = (Inr (), s\<lparr>attempts := attempts s + j + 1, gets := gets s + j + 1,
            confirmations_to_ignore := confirmations_to_ignore s @ replicate j (trade_id self),
            waits := waits s @ replicate j 4\<rparr>)"
    using h by (intro retry_refused_then_granted [of env "''cancel''" ct 1 j s rs r self]) simp_all
  then show "Confirmation_cancel env self s
          = (Inr (), s\<lparr>attempts := attempts s + j + 1, gets := gets s + j + 1,
               confirmations_to_ignore :=
                 confirmations_to_ignore s @ replicate j (trade_id self),
               waits := waits s @ replicate j 4\<rparr>)"
    by (simp add: Confirmation_cancel_def perform_op_def)
next
  assume h: "generate_confirmation_code_of_state env ''cancel'' = Inr ct
      \<and> (\<forall>i<4. (\<forall>url params. http_get env (gets s + i) url params = Inr (rs i))
                \<and> \<not> truthy (response_get (rs i) ''success'' (PBool False)))"
  have "retry (perform_op_body env self ''cancel'') 1 s
       = (Inl (RetryError (ConfirmationError '''')),
          s\<lparr>attempts := attempts s + Suc 3, gets := gets s + Suc 3,
            confirmations_to_ignore := confirmations_to_ignore s @ replicate (Suc 3) (trade_id self),
            waits := waits s @ replicate 3 4\<rparr>)"
    using h by (intro retry_refused_to_the_end [of env "''cancel''" ct 1 3 s rs self]) simp_all
  then show "Confirmation_cancel env self s
          = (Inl (RetryError (ConfirmationError '''')),
             s\<lparr>attempts := attempts s + 4, gets := gets s + 4,
               confirmations_to_ignore :=
                 confirmations_to_ignore s @ replicate 4 (trade_id self),
               waits := waits s @ replicate 3 4\<rparr>)"
    by (simp add: Confirmation_cancel_def perform_op_def)
qed

text \<open>
  A \<open>cancel\<close> operation that receives one \<open>{"success": false}\<close> response does not fail
  at once: it is retried and succeeds on the second response; refused four times it
  fails with \<open>RetryError\<close>, not \<open>ConfirmationError\<close>.
\<close>

theorem cancel_is_retried:
  "Confirmation_cancel (sample_guard_env (\<lambda>n. Inr (if n < 1 then refused else granted)))
     sample_confirmation fresh
     = (Inr (), \<lparr>confirmations_to_ignore = [5], attempts = 2, gets = 2, waits = [4]\<rparr>)
   \<and> Confirmation_cancel (sample_guard_env (\<lambda>n. Inr refused)) sample_confirmation fresh
     = (Inl (RetryError (ConfirmationError '''')),
        \<lparr>confirmations_to_ignore = [5, 5, 5, 5], attempts = 4, gets = 4, waits = [4, 4, 4]\<rparr>)"
  by (simp add: Confirmation_cancel_def perform_op_def retry.simps perform_op_body_def
      confirm_params_def assert_valid_def sample_guard_env_def sample_confirmation_def
      fresh_def refused_def granted_def dict_response_def response_get_def)

theorem perform_op_retry_policy_witness:
  "fst (Confirmation_confirm (sample_guard_env (\<lambda>n. Inr (if n < 2 then refused else granted)))
          sample_confirmation fresh) = Inr ()
   \<and> attempts (snd (Confirmation_confirm
          (sample_guard_env (\<lambda>n. Inr (if n < 2 then refused else granted)))
          sample_confirmation fresh)) = 3
   \<and> waits (snd (Confirmation_confirm
          (sample_guard_env (\<lambda>n. Inr (if n < 2 then refused else granted)))
          sample_confirmation fresh)) = [4, 4]
   \<and> Confirmation_cancel (sample_guard_env (\<lambda>n. Inr (if n < 2 then refused else granted)))
          sample_confirmation fresh
       = (Inr (), \<lparr>confirmations_to_ignore = [5, 5], attempts = 3, gets = 3, waits = [4, 4]\<rparr>)
   \<and> Confirmation_cancel (sample_guard_env (\<lambda>n. Inr refused)) sample_confirmation fresh
       = (Inl (RetryError (ConfirmationError '''')),
          \<lparr>confirmations_to_ignore = [5, 5, 5, 5], attempts = 4, gets = 4,
             waits = [4, 4, 4]\<rparr>)"
  using perform_op_retry_policy
      [where env = "sample_guard_env (\<lambda>n. Inr (if n < 2 then refused else granted))"
         and ct = "(''c29tZSBjb2Rl'', 1600000000)" and s = fresh and ra = refused
         and rb = refused and rc = granted and self = sample_confirmation
         and op = "''allow''" and j = 2 and rs = "\<lambda>i. refused" and r = granted]
    perform_op_retry_policy
      [where env = "sample_guard_env (\<lambda>n. Inr refused)"
         and ct = "(''c29tZSBjb2Rl'', 1600000000)" and s = fresh and ra = refused
         and rb = refused and rc = refused and self = sample_confirmation
         and op = "''cancel''" and j = 0 and rs = "\<lambda>i. refused" and r = refused]
  by (simp add: sample_guard_env_def fresh_def refused_def granted_def dict_response_def
      response_get_def sample_confirmation_def eval_nat_numeral)

subsection \<open>Code generation\<close>

lemma and_15: "(x::int) AND 0xF = x mod 16"
  using take_bit_eq_mask [of 4 x] by (simp add: take_bit_eq_mod mask_eq_exp_minus_1)

lemma and_31bits: "(x::int) AND 0x7FFFFFFF = x mod 2 ^ 31"
  using take_bit_eq_mask [of 31 x] by (simp add: take_bit_eq_mod mask_eq_exp_minus_1)


lemma pack_Q_big_endian: "0 \<le> n \<Longrightarrow> n < 2 ^ 64 \<Longrightarrow> pack_Q n = Inr (big_endian 8 n)"
  by (simp add: pack_Q_def big_endian_def)

lemma unpack_I_four: "length bs = 4 \<Longrightarrow> unpack_I bs = Inr (big_endian_value bs)"
  by (auto simp: eval_nat_numeral length_Suc_conv big_endian_value_def)

lemma code_loop_digits:
  "code_loop n v code
     = code @ map (\<lambda>k. chars ! nat ((v div 26 ^ k) mod 26)) [0..<n]"
proof (induction n arbitrary: v code)
  case 0
  show ?case by simp
next
  case (Suc n)
  have len: "int (length chars) = 26" by (simp add: chars_def)
  have shift: "map (\<lambda>k. chars ! nat ((v div 26 ^ k) mod 26)) [0..<Suc n]
      = chars ! nat (v mod 26) # map (\<lambda>k. chars ! nat ((v div 26 div 26 ^ k) mod 26)) [0..<n]"
  proof -
    have "[0..<Suc n] = 0 # map Suc [0..<n]"
      by (simp add: upt_conv_Cons map_Suc_upt del: upt_Suc)
    moreover have "v div 26 ^ Suc k = v div 26 div 26 ^ k" for k
      by (simp add: zdiv_zmult2_eq)
    ultimately show ?thesis by (simp add: comp_def del: upt_Suc)
  qed
  show ?case
    unfolding code_loop.simps len Suc.IH shift by simp
qed

lemma one_time_code_in_range:
  assumes secret: "b64decode lib shared_secret = Inr key"
    and positive: "0 < timestamp"
    and fits: "timestamp div 30 < 2 ^ 64"
    and digest: "\<forall>k m. length (hmac_sha1 lib k m) = 20"
  shows "generate_one_time_code lib shared_secret (Some timestamp)
           = Inr (one_time_code_spec (hmac_sha1 lib) key timestamp)
       \<and> length (one_time_code_spec (hmac_sha1 lib) key timestamp) = 5
       \<and> generate_one_time_code (lib\<lparr>now := clock\<rparr>) shared_secret (Some timestamp)
           = generate_one_time_code lib shared_secret (Some timestamp)"
proof -
  define d where "d = hmac_sha1 lib key (big_endian 8 (timestamp div 30))"
  have len: "length d = 20" using digest by (simp add: d_def)
  have pk: "pack_Q (timestamp div 30) = Inr (big_endian 8 (timestamp div 30))"
    using positive fits by (intro pack_Q_big_endian) simp_all
  have off: "nat ((d ! 19) AND 0xF) = nat (d ! 19 mod 16)" by (simp add: and_15)
  have "0 \<le> d ! 19 mod 16" "d ! 19 mod 16 < 16" by simp_all
  then have le: "nat (d ! 19 mod 16) \<le> 15" by simp
  have four: "length (take 4 (drop (nat (d ! 19 mod 16)) d)) = 4"
    using len le by simp
  have main: "generate_one_time_code l shared_secret (Some timestamp)
      = Inr (one_time_code_spec (hmac_sha1 lib) key timestamp)"
    if "b64decode l = b64decode lib" "hmac_sha1 l = hmac_sha1 lib" for l
    using positive that secret pk len
    by (simp add: generate_one_time_code_def one_time_code_spec_def d_def [symmetric] off
        unpack_I_four [OF four] and_31bits code_loop_digits chars_def Let_def)
  show ?thesis
    by (simp add: main) (simp add: one_time_code_spec_def Let_def)
qed

lemma one_time_code_too_large:
  assumes "30 * 2 ^ 64 \<le> timestamp"
  shows "generate_one_time_code lib shared_secret (Some timestamp) = Inl StructError"
proof -
  have "(30 * 2 ^ 64) div 30 \<le> timestamp div (30::int)"
    using assms by (rule zdiv_mono1) simp
  then have big: "2 ^ 64 \<le> timestamp div 30" by simp
  have nz: "timestamp \<noteq> 0" using assms by auto
  have "pack_Q (timestamp div 30) = Inl StructError"
    using big by (simp add: pack_Q_def)
  then show ?thesis using nz by (simp add: generate_one_time_code_def)
qed

text \<open>
  Claim C7. For a valid base64 secret and a positive timestamp whose 30-second window
  number fits the 8-byte encoding (\<open>timestamp div 30 < 2 ^ 64\<close>), and a 20-byte digest,
  \<open>generate_one_time_code\<close> returns the 5-character string of the specification, with the
  digits in the order they are produced (least significant first); the result does not
  depend on the clock, so equal inputs give equal codes. For every timestamp from
  \<open>30 * 2 ^ 64\<close> on, whatever the secret and the library, \<open>struct.pack\<close> raises and no
  code is returned.
\<close>

theorem one_time_code_refines_spec:
  "(b64decode lib shared_secret = Inr key \<and> 0 < timestamp \<and> timestamp div 30 < 2 ^ 64
      \<and> (\<forall>k m. length (hmac_sha1 lib k m) = 20)
     \<longrightarrow> generate_one_time_code lib shared_secret (Some timestamp)
           = Inr (one_time_code_spec (hmac_sha1 lib) key timestamp)
       \<and> length (one_time_code_spec (hmac_sha1 lib) key timestamp) = 5
       \<and> generate_one_time_code (lib\<lparr>now := clock\<rparr>) shared_secret (Some timestamp)
           = generate_one_time_code lib shared_secret (Some timestamp))
   \<and> (30 * 2 ^ 64 \<le> timestamp
     \<longrightarrow> generate_one_time_code lib shared_secret (Some timestamp) = Inl StructError)"
  using one_time_code_in_range [of lib shared_secret key timestamp clock]
    one_time_code_too_large [of timestamp lib shared_secret]
  by blast

text \<open>
  The first positive timestamp that has no 8-byte encoding of its window number.
\<close>

theorem one_time_code_out_of_range:
  "(0::int) < 30 * 2 ^ 64
   \<and> b64decode sample_library ''abc'' = Inr [97, 98, 99]
   \<and> generate_one_time_code sample_library ''abc'' (Some (30 * 2 ^ 64)) = Inl StructError"
  by (simp add: generate_one_time_code_def sample_library_def pack_Q_def)

theorem one_time_code_refines_spec_witness:
  "generate_one_time_code sample_library ''abc'' (Some 1600000000)
     = Inr (one_time_code_spec (hmac_sha1 sample_library) [97, 98, 99] 1600000000)
   \<and> length (one_time_code_spec (hmac_sha1 sample_library) [97, 98, 99] 1600000000) = 5
   \<and> generate_one_time_code sample_library ''abc'' (Some (30 * 2 ^ 64 + 7)) = Inl StructError"
proof -
  have secret: "b64decode sample_library ''abc'' = Inr [97, 98, 99]"
    by (simp add: sample_library_def)
  have digest: "\<forall>k m. length (hmac_sha1 sample_library k m) = 20"
    by (simp add: sample_library_def)
  have big: "(30::int) * 2 ^ 64 \<le> 30 * 2 ^ 64 + 7" by simp
  show ?thesis
    using one_time_code_refines_spec [of sample_library "''abc''" "[97, 98, 99]" 1600000000]
      one_time_code_refines_spec [of sample_library "''abc''" "[97, 98, 99]" "30 * 2 ^ 64 + 7"]
      secret digest big
    by simp
qed

text \<open>
  Claim C10. With the timestamp omitted (or 0), \<open>generate_confirmation_code\<close> raises
  \<open>TypeError\<close> whatever the secret, the tag and the library are, so before any decoding
  or HMAC: the name \<open>time\<close> is the module when it is called. A code is returned only for
  an explicit non-zero timestamp, and then the result does not depend on the clock: it is
  a function of secret, tag and timestamp.
\<close>

theorem confirmation_code_needs_timestamp:
  "generate_confirmation_code lib identity_secret tag None = Inl TypeError
   \<and> generate_confirmation_code lib identity_secret tag (Some 0) = Inl TypeError
   \<and> (generate_confirmation_code lib identity_secret tag timestamp = Inr code
        \<longrightarrow> (\<exists>t. timestamp = Some t \<and> t \<noteq> 0))
   \<and> (t \<noteq> 0 \<longrightarrow>
        generate_confirmation_code (lib\<lparr>now := clock\<rparr>) identity_secret tag (Some t)
          = generate_confirmation_code lib identity_secret tag (Some t))"
proof -
  have tn: "time_name = Some TimeModule"
    by (simp add: time_name_def guard_imports_def)
  have ct: "call_time l = Inl TypeError" for l
    by (simp add: call_time_def tn)
  show ?thesis
    by (cases timestamp) (auto simp: generate_confirmation_code_def ct split: sum.splits)
qed

theorem confirmation_code_needs_timestamp_witness:
  "generate_confirmation_code sample_library ''abc'' ''allow'' None = Inl TypeError
   \<and> generate_confirmation_code (sample_library\<lparr>now := 5\<rparr>) ''abc'' ''allow'' (Some 1600000000)
      = generate_confirmation_code sample_library ''abc'' ''allow'' (Some 1600000000)
   \<and> (\<exists>code. generate_confirmation_code sample_library ''abc'' ''allow'' (Some 1600000000)
        = Inr code)"
  using confirmation_code_needs_timestamp
      [of sample_library "''abc''" "''allow''" "Some 1600000000" _ 1600000000 5]
  by (simp add: generate_confirmation_code_def sample_library_def pack_Q_def encode_ascii_def)

subsection \<open>Consuming reads of the inventory\<close>

lemma list_remove_Cons:
  "list_remove x (e # es) =
     (if kind e = kind x then Inr es
      else case list_remove x es of Inl err \<Rightarrow> Inl err | Inr es' \<Rightarrow> Inr (e # es'))"
  by (auto simp: kind_def as_asset_def)

lemma list_remove_ok:
  "kind x \<in> kind ` set ys \<Longrightarrow> \<exists>ys'. list_remove x ys = Inr ys'"
  by (induction ys) (auto simp: list_remove_Cons simp del: list_remove.simps(2))

lemma list_remove_needs:
  "list_remove x ys = Inr ys' \<Longrightarrow> kind x \<in> kind ` set ys"
  by (induction ys arbitrary: ys')
    (auto simp: list_remove_Cons simp del: list_remove.simps(2) split: if_splits sum.splits)

lemma list_remove_kinds:
  "list_remove x ys = Inr ys' \<Longrightarrow>
     image_mset kind (mset ys') = image_mset kind (mset ys) - {#kind x#}"
proof (induction ys arbitrary: ys')
  case Nil
  then show ?case by simp
next
  case (Cons e es)
  show ?case
  proof (cases "kind e = kind x")
    case True
    then show ?thesis using Cons.prems
      by (simp add: list_remove_Cons del: list_remove.simps(2))
  next
    case False
    then obtain es' where r: "list_remove x es = Inr es'" and y: "ys' = e # es'"
      using Cons.prems
      by (auto simp: list_remove_Cons simp del: list_remove.simps(2) split: sum.splits)
    have "kind x \<in># image_mset kind (mset es)"
      using list_remove_needs [OF r] by simp
    then show ?thesis using Cons.IH [OF r] False y by simp
  qed
qed

lemma remove_each_ok:
  "image_mset kind (mset xs) \<subseteq># image_mset kind (mset ys) \<Longrightarrow>
     \<exists>ys'. remove_each xs ys = (Inr (), ys')"
proof (induction xs arbitrary: ys)
  case Nil
  then show ?case by simp
next
  case (Cons x xs)
  have "kind x \<in># image_mset kind (mset ys)"
    using Cons.prems by (simp add: insert_subset_eq_iff)
  then obtain ys' where r: "list_remove x ys = Inr ys'"
    using list_remove_ok [of x ys] by auto
  have "image_mset kind (mset xs) \<subseteq># image_mset kind (mset ys) - {#kind x#}"
    using Cons.prems by (simp add: insert_subset_eq_iff)
  then have "image_mset kind (mset xs) \<subseteq># image_mset kind (mset ys')"
    using list_remove_kinds [OF r] by simp
  then show ?case using Cons.IH [of ys'] r by simp
qed

lemma slice_to_prefix: "mset (slice_to k xs) \<subseteq># mset xs"
proof -
  have "mset (take n xs) \<subseteq># mset xs" for n
    by (metis append_take_drop_id mset_append mset_subset_eq_add_left)
  then show ?thesis by (simp add: slice_to_def)
qed

lemma filter_items_returns:
  "fst (filter_items self item_name limit)
     = Inr (slice_to (case limit of
                        None \<Rightarrow> int (length (filter (matching item_name) (items self))) - 1
                      | Some l \<Rightarrow> l)
              (filter (matching item_name) (items self)))"
proof -
  let ?found = "filter (matching item_name) (items self)"
  let ?k = "case limit of None \<Rightarrow> int (length ?found) - 1 | Some l \<Rightarrow> l"
  have "mset (slice_to ?k ?found) \<subseteq># mset (items self)"
    using slice_to_prefix [of ?k ?found] mset_filter [of _ "items self"]
    by (metis multiset_filter_subset subset_mset.order_trans)
  then have "image_mset kind (mset (slice_to ?k ?found)) \<subseteq># image_mset kind (mset (items self))"
    by (rule image_mset_subseteq_mono)
  then obtain ys' where "remove_each (slice_to ?k ?found) (items self) = (Inr (), ys')"
    using remove_each_ok by blast
  then show ?thesis by (simp add: filter_items_def Let_def)
qed


lemma without_first_none: "filter P ys = [] \<Longrightarrow> without_first j P ys = ys"
  by (induction j P ys rule: without_first.induct) (auto split: if_splits)

lemma filter_without_first: "filter P (without_first j P ys) = drop j (filter P ys)"
  by (induction j P ys rule: without_first.induct) auto

lemma set_without_first: "set (without_first j P ys) \<subseteq> set ys"
  by (induction j P ys rule: without_first.induct) auto

lemma without_first_Suc:
  "without_first j P (without_first (Suc 0) P ys) = without_first (Suc j) P ys"
proof (induction ys)
  case Nil
  show ?case by (cases j) simp_all
next
  case (Cons e es)
  then show ?case by (cases j) simp_all
qed

lemma list_remove_first_match:
  "filter P ys = y # rest \<Longrightarrow>
   (\<forall>x \<in> set ys. \<forall>z \<in> set ys. P z \<and> kind x = kind z \<longrightarrow> P x) \<Longrightarrow>
   list_remove y ys = Inr (without_first (Suc 0) P ys)"
proof (induction ys)
  case Nil
  then show ?case by simp
next
  case (Cons e es)
  show ?case
  proof (cases "P e")
    case True
    then have "y = e" using Cons.prems(1) by simp
    then show ?thesis using True by (simp add: list_remove_Cons del: list_remove.simps(2))
  next
    case False
    then have f: "filter P es = y # rest" using Cons.prems(1) by simp
    then have "y \<in> set (filter P es)" by simp
    then have y: "y \<in> set es" "P y" by simp_all
    have "kind e \<noteq> kind y"
      using Cons.prems(2) y False by auto
    moreover have "list_remove y es = Inr (without_first (Suc 0) P es)"
      using Cons.IH [OF f] Cons.prems(2) by simp
    ultimately show ?thesis
      using False by (simp add: list_remove_Cons del: list_remove.simps(2))
  qed
qed

lemma remove_each_first_matches:
  "(\<forall>x \<in> set ys. \<forall>z \<in> set ys. P z \<and> kind x = kind z \<longrightarrow> P x) \<Longrightarrow>
   remove_each (take j (filter P ys)) ys = (Inr (), without_first j P ys)"
proof (induction j arbitrary: ys)
  case 0
  show ?case by simp
next
  case (Suc j)
  show ?case
  proof (cases "filter P ys")
    case Nil
    then show ?thesis by (simp add: without_first_none)
  next
    case (Cons y rest)
    let ?ys1 = "without_first (Suc 0) P ys"
    have r: "list_remove y ys = Inr ?ys1"
      using list_remove_first_match [OF Cons Suc.prems] .
    have rest: "filter P ?ys1 = rest"
      by (simp add: filter_without_first Cons)
    have "\<forall>x \<in> set ?ys1. \<forall>z \<in> set ?ys1. P z \<and> kind x = kind z \<longrightarrow> P x"
      using Suc.prems set_without_first [of "Suc 0" P ys] by blast
    then have "remove_each (take j (filter P ?ys1)) ?ys1 = (Inr (), without_first j P ?ys1)"
      by (rule Suc.IH)
    then show ?thesis
      using Cons r rest by (simp add: without_first_Suc)
  qed
qed

text \<open>
  When no item of another name has the class id and instance id of an item named
  \<open>item_name\<close>, each removal takes the returned item itself.
\<close>

lemma filter_items_when_names_follow_kinds:
  "(1 \<le> length (filter (matching item_name) (items self)) \<longrightarrow>
      fst (filter_items self item_name None)
        = Inr (take (length (filter (matching item_name) (items self)) - 1)
                 (filter (matching item_name) (items self))))
   \<and> fst (filter_items self item_name (Some (int m)))
        = Inr (take (min m (length (filter (matching item_name) (items self))))
                 (filter (matching item_name) (items self)))
   \<and> ((\<forall>x \<in> set (items self). \<forall>z \<in> set (items self).
          matching item_name z \<and> kind x = kind z \<longrightarrow> matching item_name x) \<longrightarrow>
        (1 \<le> length (filter (matching item_name) (items self)) \<longrightarrow>
           snd (filter_items self item_name None)
             = self\<lparr>items := without_first
                 (length (filter (matching item_name) (items self)) - 1)
                 (matching item_name) (items self)\<rparr>)
        \<and> snd (filter_items self item_name (Some (int m)))
             = self\<lparr>items := without_first
                 (min m (length (filter (matching item_name) (items self))))
                 (matching item_name) (items self)\<rparr>)"
proof -
  let ?found = "filter (matching item_name) (items self)"
  let ?k = "length ?found"
  have none: "slice_to (int ?k - 1) ?found = take (?k - 1) ?found" if "1 \<le> ?k"
    using that by (simp add: slice_to_def nat_diff_distrib')
  have some: "slice_to (int m) ?found = take (min m ?k) ?found"
    by (simp add: slice_to_def min_def)
  have a: "1 \<le> ?k \<Longrightarrow> fst (filter_items self item_name None) = Inr (take (?k - 1) ?found)"
    using filter_items_returns [of self item_name None] none by simp
  have b: "fst (filter_items self item_name (Some (int m))) = Inr (take (min m ?k) ?found)"
    using filter_items_returns [of self item_name "Some (int m)"] some by simp
  have c: "snd (filter_items self item_name None)
             = self\<lparr>items := without_first (?k - 1) (matching item_name) (items self)\<rparr>"
    if h: "\<forall>x \<in> set (items self). \<forall>z \<in> set (items self).
          matching item_name z \<and> kind x = kind z \<longrightarrow> matching item_name x" and k: "1 \<le> ?k"
    using remove_each_first_matches [OF h, of "?k - 1"] none [OF k]
    by (simp add: filter_items_def Let_def)
  have d: "snd (filter_items self item_name (Some (int m)))
             = self\<lparr>items := without_first (min m ?k) (matching item_name) (items self)\<rparr>"
    if h: "\<forall>x \<in> set (items self). \<forall>z \<in> set (items self).
          matching item_name z \<and> kind x = kind z \<longrightarrow> matching item_name x"
    using remove_each_first_matches [OF h, of "min m ?k"] some
    by (simp add: filter_items_def Let_def)
  show ?thesis using a b c d by blast
qed

text \<open>
  In general the items removed are of the kinds of the items returned, one for one.
\<close>

lemma remove_each_kinds:
  "remove_each xs ys = (Inr (), ys') \<Longrightarrow>
     image_mset kind (mset ys') + image_mset kind (mset xs) = image_mset kind (mset ys)"
proof (induction xs arbitrary: ys)
  case Nil
  then show ?case by simp
next
  case (Cons x xs)
  from Cons.prems obtain y1 where r: "list_remove x ys = Inr y1"
    and rest: "remove_each xs y1 = (Inr (), ys')"
    by (auto split: sum.splits)
  have "kind x \<in># image_mset kind (mset ys)"
    using list_remove_needs [OF r] by simp
  then have "image_mset kind (mset y1) + {#kind x#} = image_mset kind (mset ys)"
    using list_remove_kinds [OF r] by simp
  then show ?case using Cons.IH [OF rest] by (simp add: add.assoc [symmetric])
qed

lemma filter_items_removes_by_kind:
  assumes "fst (filter_items self item_name limit) = Inr found"
  shows "image_mset kind (mset (items (snd (filter_items self item_name limit))))
           + image_mset kind (mset found)
         = image_mset kind (mset (items self))"
proof -
  let ?found = "slice_to (case limit of
        None \<Rightarrow> int (length (filter (matching item_name) (items self))) - 1 | Some l \<Rightarrow> l)
      (filter (matching item_name) (items self))"
  have f: "found = ?found"
    using assms filter_items_returns [of self item_name limit] by simp
  obtain r ys where re: "remove_each ?found (items self) = (r, ys)"
    by (cases "remove_each ?found (items self)")
  then have "r = Inr ()"
    using assms by (cases r) (simp_all add: filter_items_def Let_def)
  then have "image_mset kind (mset ys) + image_mset kind (mset ?found)
      = image_mset kind (mset (items self))"
    using remove_each_kinds [of ?found "items self" ys] re by simp
  moreover have "items (snd (filter_items self item_name limit)) = ys"
    using re \<open>r = Inr ()\<close> by (simp add: filter_items_def Let_def)
  ultimately show ?thesis using f by simp
qed

subsection \<open>Inventory reconciliation\<close>

lemma bind_Inr: "bind r f = Inr y \<Longrightarrow> \<exists>v. r = Inr v \<and> f v = Inr y"
  by (cases r) (simp_all add: bind_def)

lemma new_item_missing: "new_item data m = Inr i \<Longrightarrow> missing i = m"
proof -
  assume a: "new_item data m = Inr i"
  then obtain a' where "new_asset data = Inr a'"
    by (auto simp: new_item_def dest: bind_Inr)
  then show ?thesis using a
    by (cases data) (auto simp: new_item_def bind_def split: sum.splits option.splits)
qed

lemma match_descriptions_not_missing:
  "match_descriptions asset ds = Inr (ds', its) \<Longrightarrow> \<forall>i \<in> set its. \<not> missing i"
proof (induction ds arbitrary: ds' its)
  case Nil
  then show ?case by simp
next
  case (Cons d ds)
  from Cons.prems obtain ii where "getitem d ''instanceid'' = Inr ii"
    by (auto dest: bind_Inr)
  moreover from Cons.prems obtain ai where "getitem asset ''instanceid'' = Inr ai"
    by (auto simp: bind_def split: sum.splits)
  ultimately obtain matched where
    m: "(if matched then
           bind (dict_update d asset) (\<lambda>item'.
           bind (new_item item' False) (\<lambda>it.
           bind (match_descriptions asset ds) (\<lambda>(rest', its).
           Inr (item' # rest', it # its))))
         else
           bind (match_descriptions asset ds) (\<lambda>(rest', its).
           Inr (d # rest', its))) = Inr (ds', its)"
    using Cons.prems by (auto simp: bind_def split: sum.splits)
  show ?case
  proof (cases matched)
    case True
    then obtain item' it rest' its' where
      "new_item item' False = Inr it" "match_descriptions asset ds = Inr (rest', its')"
      "its = it # its'"
      using m by (auto simp: bind_def split: sum.splits prod.splits)
    then show ?thesis using Cons.IH [of rest' its'] new_item_missing [of item' False it]
      by simp
  next
    case False
    then obtain rest' where "match_descriptions asset ds = Inr (rest', its)"
      using m by (auto simp: bind_def split: sum.splits prod.splits)
    then show ?thesis using Cons.IH [of rest' its] by simp
  qed
qed

lemma update_assets_missing:
  "update_assets assets data acc = Inr (data', its) \<Longrightarrow>
     length (filter missing its) = length (filter missing acc) + length assets"
proof (induction assets arbitrary: data acc)
  case Nil
  then show ?case by simp
next
  case (Cons a rest)
  from Cons.prems obtain descs elems elems' found m where
    md: "match_descriptions a elems = Inr (elems', found)"
    and ni: "new_item a True = Inr m"
    and rec: "update_assets rest
       (case descs of PList ds \<Rightarrow> dict_set ''descriptions'' (PList elems') data | other \<Rightarrow> data)
       (acc @ found @ [m]) = Inr (data', its)"
    by (auto simp: bind_def split: sum.splits prod.splits)
  have "filter missing found = []"
    using match_descriptions_not_missing [OF md] by (simp add: filter_empty_conv)
  moreover have "missing m" using new_item_missing [OF ni] by simp
  ultimately show ?case using Cons.IH [OF rec] by simp
qed

lemma update_assets_grows:
  "update_assets assets data acc = Inr (data', its) \<Longrightarrow>
     length acc + length assets \<le> length its"
proof (induction assets arbitrary: data acc)
  case Nil
  then show ?case by simp
next
  case (Cons a rest)
  from Cons.prems obtain descs elems' found m where
    rec: "update_assets rest
       (case descs of PList ds \<Rightarrow> dict_set ''descriptions'' (PList elems') data | other \<Rightarrow> data)
       (acc @ found @ [m]) = Inr (data', its)"
    by (auto simp: bind_def split: sum.splits prod.splits)
  show ?case using Cons.IH [OF rec] by simp
qed

text \<open>
  Claim C1. Every asset of the payload gets an item flagged missing, whether or not a
  description matched it: an inventory built from a payload with \<open>N\<close> assets has exactly
  \<open>N\<close> items flagged missing, at least \<open>N\<close> items in all, and \<open>N \<ge> 1\<close>. (The items
  appended for matching descriptions are the unflagged ones; for one asset with its one
  matching description the inventory has two items, the second flagged.) A payload
  without the key \<open>assets\<close> gives the empty inventory with no game and length 0.
\<close>

theorem inventory_flags_every_asset_missing:
  "(new_inventory owner' data = Inr built \<and> inv_game built \<noteq> None
      \<and> map_of data ''assets'' = Some (PList assets)
     \<longrightarrow> length (filter missing (items built)) = length assets
         \<and> length assets \<le> length (items built)
         \<and> assets \<noteq> [])
   \<and> (map_of data ''assets'' = None
     \<longrightarrow> new_inventory owner' data
          = Inr \<lparr>inv_game = None, items = [], owner = owner', total_inventory_count = PInt 0\<rparr>)"
proof (intro conjI impI)
  assume h: "new_inventory owner' data = Inr built \<and> inv_game built \<noteq> None
      \<and> map_of data ''assets'' = Some (PList assets)"
  then have g: "getitem (PDict data) ''assets'' = Inr (PList assets)" by simp
  from h obtain app where first:
    "bind (getitem (PDict data) ''assets'') (\<lambda>assets.
       bind (getitem_0 assets) (\<lambda>first. bind (getitem first ''appid'') py_int)) = Inr app"
    by (auto simp: new_inventory_def update_inventory_def split: sum.splits exn.splits)
  then show "assets \<noteq> []"
    using g by (auto simp: bind_def)
  from h first g obtain data' its where
    ua: "update_assets assets data [] = Inr (data', its)" and it: "items built = its"
    by (auto simp: new_inventory_def update_inventory_def bind_def
        split: sum.splits prod.splits)
  show "length (filter missing (items built)) = length assets"
    using update_assets_missing [OF ua] it by simp
  show "length assets \<le> length (items built)"
    using update_assets_grows [OF ua] it by simp
next
  assume "map_of data ''assets'' = None"
  then show "new_inventory owner' data
          = Inr \<lparr>inv_game = None, items = [], owner = owner', total_inventory_count = PInt 0\<rparr>"
    by (simp add: new_inventory_def update_inventory_def bind_def)
qed

lemma one_key_inventory:
  "new_inventory 7 one_key_payload
     = Inr \<lparr>inv_game = Some (Game (PInt 440)), items = [key_item 1, nameless_item 1],
            owner = 7, total_inventory_count = PInt 1\<rparr>"
  by (simp add: new_inventory_def update_inventory_def bind_def one_key_payload_def
      key_asset_def key_description_def new_item_def new_asset_def key_item_def
      nameless_item_def dict_get_def int_of_string_def strip_def is_space_def
      parse_unsigned_def digit_value_def Let_def)

theorem inventory_flags_every_asset_missing_witness:
  "new_inventory 7 one_key_payload
     = Inr \<lparr>inv_game = Some (Game (PInt 440)), items = [key_item 1, nameless_item 1],
            owner = 7, total_inventory_count = PInt 1\<rparr>
   \<and> map missing [key_item 1, nameless_item 1] = [False, True]
   \<and> length (filter missing [key_item 1, nameless_item 1]) = length [key_asset ''1'']
   \<and> new_inventory 7 [(''total_inventory_count'', PInt 5)]
     = Inr \<lparr>inv_game = None, items = [], owner = 7, total_inventory_count = PInt 0\<rparr>"
  using inventory_flags_every_asset_missing
      [of 7 one_key_payload
          "\<lparr>inv_game = Some (Game (PInt 440)), items = [key_item 1, nameless_item 1],
            owner = 7, total_inventory_count = PInt 1\<rparr>"
          "[key_asset ''1'']"]
    inventory_flags_every_asset_missing
      [of 7 "[(''total_inventory_count'', PInt 5)]"
          "\<lparr>inv_game = None, items = [], owner = 7, total_inventory_count = PInt 0\<rparr>" "[]"]
    one_key_inventory
  by (simp add: one_key_payload_def key_item_def nameless_item_def)

lemma two_key_inventory_built: "new_inventory 7 two_key_payload = Inr two_key_inventory"
  by (simp add: new_inventory_def update_inventory_def bind_def two_key_payload_def
      two_key_inventory_def key_asset_def key_description_def new_item_def new_asset_def
      key_item_def nameless_item_def dict_get_def int_of_string_def strip_def is_space_def
      parse_unsigned_def digit_value_def Let_def)

text \<open>
  Claim C8. The inventory built from two assets of one kind sharing a description holds
  a named item and a nameless one for each asset. \<open>filter_items\<close> with limit 2 returns
  the two named items, but the second removal takes the nameless item of the first
  asset: the second returned item stays in the inventory and an item that was not
  returned is gone. Removing exactly the returned items would leave the two nameless
  ones.
\<close>

theorem filter_items_removes_another_item:
  "new_inventory 7 two_key_payload = Inr two_key_inventory
   \<and> items two_key_inventory = [key_item 1, nameless_item 1, key_item 2, nameless_item 2]
   \<and> fst (filter_items two_key_inventory ''Key'' (Some 2)) = Inr [key_item 1, key_item 2]
   \<and> items (snd (filter_items two_key_inventory ''Key'' (Some 2)))
     = [key_item 2, nameless_item 2]
   \<and> without_first 2 (matching ''Key'') (items two_key_inventory)
     = [nameless_item 1, nameless_item 2]"
proof -
  have "fst (filter_items two_key_inventory ''Key'' (Some 2)) = Inr [key_item 1, key_item 2]"
    by (simp add: filter_items_def two_key_inventory_def key_item_def nameless_item_def
        matching_def slice_to_def as_asset_def Let_def)
  moreover have "items (snd (filter_items two_key_inventory ''Key'' (Some 2)))
     = [key_item 2, nameless_item 2]"
    by (simp add: filter_items_def two_key_inventory_def key_item_def nameless_item_def
        matching_def slice_to_def as_asset_def Let_def)
  moreover have "without_first 2 (matching ''Key'') (items two_key_inventory)
     = [nameless_item 1, nameless_item 2]"
    by (simp add: two_key_inventory_def key_item_def nameless_item_def matching_def
        eval_nat_numeral)
  ultimately show ?thesis
    using two_key_inventory_built by (simp add: two_key_inventory_def)
qed

end
